theory Spec2Isabelle
  imports Main "HOL-Library.Sublist"
begin

section \<open>The Go string functions used by the program\<close>

text \<open>
  A Go string is a sequence of bytes, and so is a HOL \<open>string\<close>. The functions below are
  the ones of package \<open>strings\<close> (and the slicing and formatting) that the modelled code
  calls. \<open>strings.ToLower\<close> and \<open>strings.EqualFold\<close> are modelled on ASCII: the letters
  \<open>A\<close> to \<open>Z\<close> are mapped to \<open>a\<close> to \<open>z\<close> and every other byte is kept, which is what Go
  does on a string without bytes above 127.
\<close>

definition ToLower_char :: "char \<Rightarrow> char" where
  "ToLower_char c =
     (let n = (of_char c :: nat) in if 65 \<le> n \<and> n \<le> 90 then char_of (n + 32) else c)"

definition strings_ToLower :: "string \<Rightarrow> string" where
  "strings_ToLower s = map ToLower_char s"

definition strings_EqualFold :: "string \<Rightarrow> string \<Rightarrow> bool" where
  "strings_EqualFold s t = (strings_ToLower s = strings_ToLower t)"

definition strings_HasPrefix :: "string \<Rightarrow> string \<Rightarrow> bool" where
  "strings_HasPrefix s p = prefix p s"

definition strings_TrimPrefix :: "string \<Rightarrow> string \<Rightarrow> string" where
  "strings_TrimPrefix s p = (if strings_HasPrefix s p then drop (length p) s else s)"

fun strings_Contains :: "string \<Rightarrow> string \<Rightarrow> bool" where
  "strings_Contains [] sub = (sub = [])"
| "strings_Contains (c # cs) sub = (prefix sub (c # cs) \<or> strings_Contains cs sub)"

text \<open>\<open>strings.Index\<close>: the position of the first occurrence, or \<open>-1\<close>.\<close>

fun strings_Index :: "string \<Rightarrow> string \<Rightarrow> int" where
  "strings_Index [] sub = (if sub = [] then 0 else - 1)"
| "strings_Index (c # cs) sub =
     (if prefix sub (c # cs) then 0
      else (let i = strings_Index cs sub in if i = - 1 then - 1 else i + 1))"

text \<open>
  \<open>strings.Split\<close> cuts at the leftmost occurrences of the separator, which do not overlap.
  \<open>split_from sep cur s\<close> scans \<open>s\<close> with the piece read so far in \<open>cur\<close> (reversed). The
  program only splits at the separators \<open>"/"\<close> and \<open>", "\<close>; for the empty separator Go
  explodes the string, which on single-byte characters is the list of its bytes.
\<close>

function split_from :: "string \<Rightarrow> string \<Rightarrow> string \<Rightarrow> string list" where
  "split_from sep cur [] = [rev cur]"
| "split_from sep cur (c # cs) =
     (if sep \<noteq> [] \<and> prefix sep (c # cs)
      then rev cur # split_from sep [] (drop (length sep) (c # cs))
      else split_from sep (c # cur) cs)"
  by pat_completeness auto
termination
  by (relation "measure (\<lambda>(sep, cur, s). length s)") auto

definition strings_Split :: "string \<Rightarrow> string \<Rightarrow> string list" where
  "strings_Split s sep = (if sep = [] then map (\<lambda>c. [c]) s else split_from sep [] s)"

fun strings_Join :: "string list \<Rightarrow> string \<Rightarrow> string" where
  "strings_Join [] sep = []"
| "strings_Join [x] sep = x"
| "strings_Join (x # y # ys) sep = x @ sep @ strings_Join (y # ys) sep"

text \<open>The verb \<open>%d\<close> of \<open>fmt.Sprintf\<close> on a length, which is never negative.\<close>

definition digit_char :: "nat \<Rightarrow> char" where
  "digit_char d = char_of (48 + d)"

fun Sprintf_d :: "nat \<Rightarrow> string" where
  "Sprintf_d n = (if n < 10 then [digit_char n] else Sprintf_d (n div 10) @ [digit_char (n mod 10)])"

declare Sprintf_d.simps [simp del]

section \<open>Types (package types)\<close>

text \<open>
  \<open>ValidationStatus\<close> is a string type with six constants; the classifier only ever stores
  one of the constants, so the type is the enumeration of them.
\<close>

datatype ValidationStatus =
    ValidationReady
  | ValidationSetupNeeded
  | ValidationBlocker
  | ValidationWarning
  | ValidationReview
  | ValidationUnknown

record ValidationResult =
  Item :: string
  Status :: ValidationStatus
  Message :: string
  Recommendation :: string

text \<open>The counters are Go \<open>int\<close>s that count list elements; they are far from wrapping.\<close>

record ValidationSummary =
  Ready :: int
  SetupNeeded :: int
  Blockers :: int
  Warnings :: int
  Review :: int
  Unknown :: int
  Total :: int

text \<open>
  Field names are global in a theory, so a field whose name another struct also uses takes
  a prefix: \<open>Val\<close> for the result lists of \<open>MigrationValidation\<close>, \<open>Cap\<close> for the fields
  of \<open>TargetOrgCapabilities\<close>, and \<open>PolicyStatus\<close> for \<open>OrgPolicy.Status\<close>.
\<close>

record MigrationValidation =
  TargetOrganization :: string
  OverallReadiness :: ValidationStatus
  Summary :: ValidationSummary
  ValCodeDependencies :: "ValidationResult list"
  ValCIDependencies :: "ValidationResult list"
  ValAccessPermissions :: "ValidationResult list"
  ValSecurityCompliance :: "ValidationResult list"
  ValAppsIntegrations :: "ValidationResult list"
  ValGovernance :: "ValidationResult list"

record OrgPolicy =
  Name :: string
  PolicyStatus :: string
  Restrictions :: "string list"

record OrgMemberPrivileges =
  CanCreateRepos :: bool
  CanForkPrivateRepos :: bool
  TwoFactorRequired :: bool
  WebCommitSignoffRequired :: bool
  DefaultPermission :: string
  RestrictionsActive :: "string list"

record TargetOrgCapabilities =
  CapOrganization :: string
  CapApps :: "string list"
  CapTeams :: "string list"
  CapRepositoryPolicies :: "OrgPolicy list"
  CapMemberPrivileges :: OrgMemberPrivileges
  CapRulesets :: "string list"
  CapSecrets :: "string list"
  CapVariables :: "string list"
  CapRunners :: "string list"

record CodeDependencies =
  InternalRepositoryReferences :: "string list"
  GitSubmodules :: "string list"
  OrgPackageRegistries :: "string list"
  HardcodedOrgReferences :: "string list"
  OrgSpecificContainerRegistries :: "string list"

record ActionsCIDependencies =
  OrganizationSecrets :: "string list"
  OrganizationVariables :: "string list"
  SelfHostedRunners :: "string list"
  EnvironmentDependencies :: "string list"
  OrgSpecificActions :: "string list"
  RequiredWorkflows :: "string list"
  CrossRepoWorkflowTriggers :: "string list"

record AccessPermissions =
  Teams :: "string list"
  IndividualCollaborators :: "string list"
  OrganizationRoles :: "string list"
  OrganizationMembership :: "string list"
  CodeownersRequirements :: "string list"

record SecurityCompliance =
  SecurityCampaigns :: "string list"

record AppsIntegrations =
  InstalledGitHubApps :: "string list"
  PersonalAccessTokens :: "string list"

record OrgGovernance =
  OrganizationPolicies :: "OrgPolicy list"
  RepositoryPolicies :: "OrgPolicy list"
  MemberPrivileges :: "string list"
  RepositoryRulesets :: "OrgPolicy list"
  IssueTemplates :: "string list"
  PullRequestTemplates :: "string list"
  RequiredStatusChecks :: "string list"

text \<open>
  \<open>OrganizationalDependencies\<close>: the fields are named \<open>Deps...\<close> after the struct types
  they hold. \<open>Validation\<close> is the pointer that is nil until a validation is attached.
\<close>

record OrganizationalDependencies =
  Repository :: string
  DepsCode :: CodeDependencies
  DepsActionsCI :: ActionsCIDependencies
  DepsAccess :: AccessPermissions
  DepsSecurity :: SecurityCompliance
  DepsApps :: AppsIntegrations
  DepsGovernance :: OrgGovernance
  Validation :: "MigrationValidation option"

section \<open>The dependency classifier (package validation)\<close>

subsection \<open>Helper functions for extracting names and checking availability\<close>

definition extractAppName :: "string \<Rightarrow> string" where
  "extractAppName appString =
     (let idx = strings_Index appString '' ('' in
      if idx \<noteq> - 1 then take (nat idx) appString else appString)"

definition extractTeamName :: "string \<Rightarrow> string" where
  "extractTeamName teamString =
     (let idx = strings_Index teamString '' ('' in
      if idx \<noteq> - 1 then take (nat idx) teamString else teamString)"

definition extractSecretName :: "string \<Rightarrow> string" where
  "extractSecretName secretString = secretString"

definition extractVariableName :: "string \<Rightarrow> string" where
  "extractVariableName variableString = variableString"

definition extractRunnerName :: "string \<Rightarrow> string" where
  "extractRunnerName runnerString = runnerString"

fun isAppAvailable :: "string \<Rightarrow> string list \<Rightarrow> bool" where
  "isAppAvailable appName [] = False"
| "isAppAvailable appName (available # rest) =
     (if strings_EqualFold appName available then True else isAppAvailable appName rest)"

fun isCommonApp_loop :: "string \<Rightarrow> string list \<Rightarrow> bool" where
  "isCommonApp_loop appName [] = False"
| "isCommonApp_loop appName (common # rest) =
     (if strings_Contains (strings_ToLower appName) common then True
      else isCommonApp_loop appName rest)"

definition isCommonApp :: "string \<Rightarrow> bool" where
  "isCommonApp appName =
     isCommonApp_loop appName [''dependabot'', ''github-actions'', ''codecov'', ''sonarcloud'']"

fun isTeamAvailable :: "string \<Rightarrow> string list \<Rightarrow> bool" where
  "isTeamAvailable teamName [] = False"
| "isTeamAvailable teamName (available # rest) =
     (if strings_EqualFold teamName available then True else isTeamAvailable teamName rest)"

fun isSecretAvailable :: "string \<Rightarrow> string list \<Rightarrow> bool" where
  "isSecretAvailable secretName [] = False"
| "isSecretAvailable secretName (available # rest) =
     (if strings_EqualFold secretName available then True else isSecretAvailable secretName rest)"

fun isVariableAvailable :: "string \<Rightarrow> string list \<Rightarrow> bool" where
  "isVariableAvailable variableName [] = False"
| "isVariableAvailable variableName (available # rest) =
     (if strings_EqualFold variableName available then True
      else isVariableAvailable variableName rest)"

fun isRunnerAvailable :: "string \<Rightarrow> string list \<Rightarrow> bool" where
  "isRunnerAvailable runnerName [] = False"
| "isRunnerAvailable runnerName (available # rest) =
     (if strings_EqualFold runnerName available then True else isRunnerAvailable runnerName rest)"

subsection \<open>Apps, access and CI\<close>

text \<open>
  Each \<open>for ... range\<close> loop appends one result per element, so it is the \<open>map\<close> of its
  body. The apostrophe of the format strings is written \<open>CHR 0x27\<close>.
\<close>

definition validateApp :: "TargetOrgCapabilities \<Rightarrow> string \<Rightarrow> ValidationResult" where
  "validateApp capabilities app =
     (let appName = extractAppName app in
      if isAppAvailable appName (CapApps capabilities) then
        \<lparr>Item = app, Status = ValidationReady,
         Message = ''App is available in target organization'', Recommendation = []\<rparr>
      else if isCommonApp appName then
        \<lparr>Item = app, Status = ValidationSetupNeeded,
         Message = ''Standard app, can be installed'',
         Recommendation = ''Install '' @ appName @ '' in target organization''\<rparr>
      else
        \<lparr>Item = app, Status = ValidationBlocker,
         Message = ''Custom app, requires manual setup'',
         Recommendation = ''Review app requirements and setup in target org''\<rparr>)"

definition validateAppsIntegrations ::
  "AppsIntegrations \<Rightarrow> TargetOrgCapabilities \<Rightarrow> ValidationResult list" where
  "validateAppsIntegrations apps capabilities =
     map (validateApp capabilities) (InstalledGitHubApps apps)"

definition validateTeam :: "TargetOrgCapabilities \<Rightarrow> string \<Rightarrow> ValidationResult" where
  "validateTeam capabilities team =
     (let teamName = extractTeamName team in
      if isTeamAvailable teamName (CapTeams capabilities) then
        \<lparr>Item = team, Status = ValidationReady,
         Message = ''Team exists in target organization'', Recommendation = []\<rparr>
      else
        \<lparr>Item = team, Status = ValidationBlocker,
         Message = ''Team does not exist in target organization'',
         Recommendation = ''Create team '' @ [CHR 0x27] @ teamName @ [CHR 0x27]
           @ '' in target organization''\<rparr>)"

definition validateCollaborator :: "string \<Rightarrow> ValidationResult" where
  "validateCollaborator collaborator =
     \<lparr>Item = collaborator, Status = ValidationWarning,
      Message = ''Individual access requires manual setup in target organization'',
      Recommendation = ''Invite user to target organization and configure permissions''\<rparr>"

text \<open>
  One pass of the CODEOWNERS loop: the results it appends for one requirement, which are
  none when neither branch is taken, or when the team reference does not have two parts.
\<close>

definition validateCodeownersRequirement ::
  "TargetOrgCapabilities \<Rightarrow> string \<Rightarrow> ValidationResult list" where
  "validateCodeownersRequirement capabilities requirement =
     (if strings_HasPrefix requirement ''Team: @'' then
        (let teamRef = strings_TrimPrefix requirement ''Team: @'';
             parts = strings_Split teamRef ''/'' in
         if length parts = 2 then
           (let teamName = parts ! 1 in
            if isTeamAvailable teamName (CapTeams capabilities) then
              [\<lparr>Item = requirement, Status = ValidationReady,
                Message = ''CODEOWNERS team exists in target organization'',
                Recommendation = []\<rparr>]
            else
              [\<lparr>Item = requirement, Status = ValidationBlocker,
                Message = ''CODEOWNERS team does not exist in target organization'',
                Recommendation = ''Create team '' @ [CHR 0x27] @ teamName @ [CHR 0x27]
                  @ '' in target organization or update CODEOWNERS''\<rparr>])
         else [])
      else if strings_HasPrefix requirement ''User: @'' then
        [\<lparr>Item = requirement, Status = ValidationWarning,
          Message = ''CODEOWNERS user requires manual setup in target organization'',
          Recommendation = ''Invite user to target organization or update CODEOWNERS''\<rparr>]
      else [])"

definition validateAccessPermissions ::
  "AccessPermissions \<Rightarrow> TargetOrgCapabilities \<Rightarrow> bool \<Rightarrow> ValidationResult list" where
  "validateAccessPermissions access capabilities assignTeams =
     map (validateTeam capabilities) (Teams access)
     @ map validateCollaborator (IndividualCollaborators access)
     @ concat (map (validateCodeownersRequirement capabilities) (CodeownersRequirements access))"

definition validateSecret :: "TargetOrgCapabilities \<Rightarrow> string \<Rightarrow> ValidationResult" where
  "validateSecret capabilities secret =
     (let secretName = extractSecretName secret in
      if isSecretAvailable secretName (CapSecrets capabilities) then
        \<lparr>Item = secret, Status = ValidationReady,
         Message = ''Secret exists in target organization'', Recommendation = []\<rparr>
      else
        \<lparr>Item = secret, Status = ValidationSetupNeeded,
         Message = ''Secret needs to be created in target organization'',
         Recommendation = ''Create secret '' @ [CHR 0x27] @ secretName @ [CHR 0x27]
           @ '' in target organization''\<rparr>)"

definition validateVariable :: "TargetOrgCapabilities \<Rightarrow> string \<Rightarrow> ValidationResult" where
  "validateVariable capabilities variable =
     (let variableName = extractVariableName variable in
      if isVariableAvailable variableName (CapVariables capabilities) then
        \<lparr>Item = variable, Status = ValidationReady,
         Message = ''Variable exists in target organization'', Recommendation = []\<rparr>
      else
        \<lparr>Item = variable, Status = ValidationSetupNeeded,
         Message = ''Variable needs to be created in target organization'',
         Recommendation = ''Create variable '' @ [CHR 0x27] @ variableName @ [CHR 0x27]
           @ '' in target organization''\<rparr>)"

definition validateRunner :: "TargetOrgCapabilities \<Rightarrow> string \<Rightarrow> ValidationResult" where
  "validateRunner capabilities runner =
     (let runnerName = extractRunnerName runner in
      if isRunnerAvailable runnerName (CapRunners capabilities) then
        \<lparr>Item = runner, Status = ValidationReady,
         Message = ''Runner is available in target organization'', Recommendation = []\<rparr>
      else
        \<lparr>Item = runner, Status = ValidationSetupNeeded,
         Message = ''Self-hosted runner needs to be set up'',
         Recommendation = ''Configure runner '' @ [CHR 0x27] @ runnerName @ [CHR 0x27]
           @ '' in target organization''\<rparr>)"

definition validateRequiredWorkflow :: "string \<Rightarrow> ValidationResult" where
  "validateRequiredWorkflow workflow =
     \<lparr>Item = workflow, Status = ValidationReview,
      Message = ''Required workflow policy needs manual configuration'',
      Recommendation = ''Set up equivalent required workflow policy in target organization''\<rparr>"

definition validateCIDependencies ::
  "ActionsCIDependencies \<Rightarrow> TargetOrgCapabilities \<Rightarrow> ValidationResult list" where
  "validateCIDependencies ci capabilities =
     map (validateSecret capabilities) (OrganizationSecrets ci)
     @ map (validateVariable capabilities) (OrganizationVariables ci)
     @ map (validateRunner capabilities) (SelfHostedRunners ci)
     @ map validateRequiredWorkflow (RequiredWorkflows ci)"

subsection \<open>Governance, code and security\<close>

definition memberPrivilegeKeywords :: "string list" where
  "memberPrivilegeKeywords =
     [''member management'', ''repository creation'', ''private repository forking'',
      ''two-factor authentication'', ''web commit signoff'']"

fun containsKeyword :: "string \<Rightarrow> string list \<Rightarrow> bool" where
  "containsKeyword lower [] = False"
| "containsKeyword lower (keyword # rest) =
     (if strings_Contains lower keyword then True else containsKeyword lower rest)"

fun restrictionsContainKeyword :: "string list \<Rightarrow> string list \<Rightarrow> bool" where
  "restrictionsContainKeyword [] keywords = False"
| "restrictionsContainKeyword (restriction # rest) keywords =
     (if containsKeyword (strings_ToLower restriction) keywords then True
      else restrictionsContainKeyword rest keywords)"

text \<open>\<open>isMemberPrivilegePolicy\<close> of package validation, the one \<open>validateGovernance\<close> calls.\<close>

definition isMemberPrivilegePolicy :: "OrgPolicy \<Rightarrow> bool" where
  "isMemberPrivilegePolicy policy =
     (if containsKeyword (strings_ToLower (Name policy)) memberPrivilegeKeywords then True
      else restrictionsContainKeyword (Restrictions policy) memberPrivilegeKeywords)"

text \<open>
  \<open>isMemberPrivilegePolicyOrgLevel\<close> of package dependencies; the two functions named
  \<open>isMemberPrivilegePolicy\<close> in the packages dependencies and output have the same body.
\<close>

definition isMemberPrivilegePolicyOrgLevel :: "OrgPolicy \<Rightarrow> bool" where
  "isMemberPrivilegePolicyOrgLevel policy =
     (if strings_Contains (strings_ToLower (Name policy)) ''policy''
         \<and> Name policy \<noteq> ''Member Management Policy'' then False
      else if containsKeyword (strings_ToLower (Name policy)) memberPrivilegeKeywords then True
      else restrictionsContainKeyword (Restrictions policy) memberPrivilegeKeywords)"

text \<open>The \<open>switch\<close> in the loop of \<open>validateMemberPrivilegePolicy\<close>, for one restriction.\<close>

definition missingRestriction :: "OrgMemberPrivileges \<Rightarrow> string \<Rightarrow> string list" where
  "missingRestriction targetPrivileges restriction =
     (let restrictionLower = strings_ToLower restriction in
      if strings_Contains restrictionLower ''repository creation restricted'' then
        (if CanCreateRepos targetPrivileges
         then [''Repository creation needs to be restricted''] else [])
      else if strings_Contains restrictionLower ''private repository forking restricted'' then
        (if CanForkPrivateRepos targetPrivileges
         then [''Private repository forking needs to be restricted''] else [])
      else if strings_Contains restrictionLower ''two-factor authentication required'' then
        (if \<not> TwoFactorRequired targetPrivileges
         then [''Two-factor authentication needs to be required''] else [])
      else if strings_Contains restrictionLower ''web commit signoff required'' then
        (if \<not> WebCommitSignoffRequired targetPrivileges
         then [''Web commit signoff needs to be required''] else [])
      else [])"

definition policyItem :: "OrgPolicy \<Rightarrow> string" where
  "policyItem policy = Name policy @ '' (status: '' @ PolicyStatus policy @ '')''"

definition validateMemberPrivilegePolicy ::
  "OrgPolicy \<Rightarrow> OrgMemberPrivileges \<Rightarrow> ValidationResult" where
  "validateMemberPrivilegePolicy policy targetPrivileges =
     (let missingRestrictions =
            concat (map (missingRestriction targetPrivileges) (Restrictions policy)) in
      if length missingRestrictions = 0 then
        \<lparr>Item = policyItem policy, Status = ValidationReady,
         Message = ''Member privilege settings meet policy requirements'',
         Recommendation = []\<rparr>
      else if length missingRestrictions < length (Restrictions policy) then
        \<lparr>Item = policyItem policy, Status = ValidationSetupNeeded,
         Message = ''Some member privileges need adjustment (''
           @ Sprintf_d (length missingRestrictions) @ '' missing)'',
         Recommendation = ''Configure missing restrictions: ''
           @ strings_Join missingRestrictions '', ''\<rparr>
      else
        \<lparr>Item = policyItem policy, Status = ValidationSetupNeeded,
         Message = ''Member privileges need configuration to meet policy requirements'',
         Recommendation = ''Configure required restrictions: ''
           @ strings_Join missingRestrictions '', ''\<rparr>)"

fun validateRepositoryPolicy :: "OrgPolicy \<Rightarrow> OrgPolicy list \<Rightarrow> ValidationResult" where
  "validateRepositoryPolicy policy [] =
     \<lparr>Item = policyItem policy, Status = ValidationSetupNeeded,
      Message = ''Repository policy needs to be configured'',
      Recommendation = ''Set up '' @ [CHR 0x27] @ Name policy @ [CHR 0x27]
        @ '' repository policy in target organization''\<rparr>"
| "validateRepositoryPolicy policy (targetPolicy # rest) =
     (if strings_EqualFold (Name policy) (Name targetPolicy) then
        \<lparr>Item = policyItem policy, Status = ValidationReview,
         Message = ''Similar repository policy found, requires verification'',
         Recommendation = ''Verify policy configuration matches requirements''\<rparr>
      else validateRepositoryPolicy policy rest)"

definition validatePolicy :: "TargetOrgCapabilities \<Rightarrow> OrgPolicy \<Rightarrow> ValidationResult" where
  "validatePolicy capabilities policy =
     (if isMemberPrivilegePolicy policy
      then validateMemberPrivilegePolicy policy (CapMemberPrivileges capabilities)
      else validateRepositoryPolicy policy (CapRepositoryPolicies capabilities))"

definition validateIssueTemplate :: "string \<Rightarrow> ValidationResult" where
  "validateIssueTemplate template =
     \<lparr>Item = template, Status = ValidationReview,
      Message = ''Issue template requires manual setup'',
      Recommendation = ''Copy template to target organization'' @ [CHR 0x27]
        @ ''s .github repository''\<rparr>"

definition validatePullRequestTemplate :: "string \<Rightarrow> ValidationResult" where
  "validatePullRequestTemplate template =
     \<lparr>Item = template, Status = ValidationReview,
      Message = ''PR template requires manual setup'',
      Recommendation = ''Copy template to target organization'' @ [CHR 0x27]
        @ ''s .github repository''\<rparr>"

definition validateGovernance ::
  "OrgGovernance \<Rightarrow> TargetOrgCapabilities \<Rightarrow> ValidationResult list" where
  "validateGovernance governance capabilities =
     map (validatePolicy capabilities) (OrganizationPolicies governance)
     @ map validateIssueTemplate (IssueTemplates governance)
     @ map validatePullRequestTemplate (PullRequestTemplates governance)"

definition validateSubmodule :: "string \<Rightarrow> ValidationResult" where
  "validateSubmodule submodule =
     (if strings_Contains submodule ''external dependency'' then
        \<lparr>Item = submodule, Status = ValidationReview,
         Message = ''External repository access needs verification'',
         Recommendation = ''Verify target organization has access to this external repository''\<rparr>
      else
        \<lparr>Item = submodule, Status = ValidationReview,
         Message = ''Internal submodule, may need access setup'',
         Recommendation = ''Ensure target org has access to submodule repository''\<rparr>)"

definition validateCodeDependencies ::
  "CodeDependencies \<Rightarrow> TargetOrgCapabilities \<Rightarrow> ValidationResult list" where
  "validateCodeDependencies code capabilities = map validateSubmodule (GitSubmodules code)"

definition validateCampaign :: "string \<Rightarrow> ValidationResult" where
  "validateCampaign campaign =
     \<lparr>Item = campaign, Status = ValidationReview,
      Message = ''Security campaign requires manual setup'',
      Recommendation = ''Configure equivalent security measures in target organization''\<rparr>"

definition validateSecurityCompliance ::
  "SecurityCompliance \<Rightarrow> TargetOrgCapabilities \<Rightarrow> ValidationResult list" where
  "validateSecurityCompliance security capabilities =
     map validateCampaign (SecurityCampaigns security)"

subsection \<open>Summary and overall readiness\<close>

definition countResult :: "ValidationSummary \<Rightarrow> ValidationResult \<Rightarrow> ValidationSummary" where
  "countResult summary result =
     (let s = summary\<lparr>Total := Total summary + 1\<rparr> in
      case Status result of
        ValidationReady \<Rightarrow> s\<lparr>Ready := Ready s + 1\<rparr>
      | ValidationSetupNeeded \<Rightarrow> s\<lparr>SetupNeeded := SetupNeeded s + 1\<rparr>
      | ValidationBlocker \<Rightarrow> s\<lparr>Blockers := Blockers s + 1\<rparr>
      | ValidationWarning \<Rightarrow> s\<lparr>Warnings := Warnings s + 1\<rparr>
      | ValidationReview \<Rightarrow> s\<lparr>Review := Review s + 1\<rparr>
      | ValidationUnknown \<Rightarrow> s\<lparr>Unknown := Unknown s + 1\<rparr>)"

definition emptySummary :: ValidationSummary where
  "emptySummary =
     \<lparr>Ready = 0, SetupNeeded = 0, Blockers = 0, Warnings = 0, Review = 0, Unknown = 0, Total = 0\<rparr>"

definition allResults :: "MigrationValidation \<Rightarrow> ValidationResult list" where
  "allResults validation =
     ValAppsIntegrations validation @ ValAccessPermissions validation
     @ ValCIDependencies validation @ ValGovernance validation
     @ ValCodeDependencies validation @ ValSecurityCompliance validation"

definition calculateSummary :: "MigrationValidation \<Rightarrow> ValidationSummary" where
  "calculateSummary validation = foldl countResult emptySummary (allResults validation)"

definition determineOverallReadiness :: "ValidationSummary \<Rightarrow> ValidationStatus" where
  "determineOverallReadiness summary =
     (if Blockers summary > 0 then ValidationBlocker
      else if SetupNeeded summary > 0 \<or> Review summary > 0 then ValidationSetupNeeded
      else if Warnings summary > 0 then ValidationWarning
      else if Ready summary = Total summary then ValidationReady
      else ValidationUnknown)"

text \<open>
  \<open>ValidateAgainstTarget\<close>: the six lists are computed, then the summary from the lists
  and the readiness from the summary. The status fields before the last two assignments
  are the zero values (the empty string as a status is outside the six constants and is
  never read; \<open>ValidationUnknown\<close> stands for it in the intermediate record).
\<close>

definition ValidateAgainstTarget ::
  "OrganizationalDependencies \<Rightarrow> TargetOrgCapabilities \<Rightarrow> bool \<Rightarrow> MigrationValidation" where
  "ValidateAgainstTarget deps capabilities assignTeams =
     (let validation =
            \<lparr>TargetOrganization = CapOrganization capabilities,
             OverallReadiness = ValidationUnknown,
             Summary = emptySummary,
             ValCodeDependencies = validateCodeDependencies (DepsCode deps) capabilities,
             ValCIDependencies = validateCIDependencies (DepsActionsCI deps) capabilities,
             ValAccessPermissions =
               validateAccessPermissions (DepsAccess deps) capabilities assignTeams,
             ValSecurityCompliance = validateSecurityCompliance (DepsSecurity deps) capabilities,
             ValAppsIntegrations = validateAppsIntegrations (DepsApps deps) capabilities,
             ValGovernance = validateGovernance (DepsGovernance deps) capabilities\<rparr>;
          validation = validation\<lparr>Summary := calculateSummary validation\<rparr>
      in validation\<lparr>OverallReadiness := determineOverallReadiness (Summary validation)\<rparr>)"

section \<open>The ruleset target resolver\<close>

subsection \<open>On the structured conditions (package dependencies)\<close>

text \<open>
  The ruleset as the API returns it. The parameters of a rule are JSON values that no
  function reads, so a rule is its type. \<open>RefCondition\<close> is the struct of the conditions
  \<open>ref_name\<close> and \<open>repository_property\<close>.
\<close>

record RefCondition =
  RefInclude :: "string list"
  RefExclude :: "string list"

record RepositoryNameCondition =
  Include :: "string list"
  Exclude :: "string list"
  Protected :: bool

record RulesetConditions =
  RefName :: RefCondition
  RepositoryName :: RepositoryNameCondition
  RepositoryProperty :: RefCondition

record OrgRuleset =
  ID :: int
  RulesetName :: string
  Enforcement :: string
  Source :: string
  Target :: string
  Conditions :: RulesetConditions
  Rules :: "string list"

text \<open>The loop over the excludes: it returns false at the first entry that matches.\<close>

fun excludeMatches :: "string list \<Rightarrow> string \<Rightarrow> bool" where
  "excludeMatches [] repo = False"
| "excludeMatches (exclude # rest) repo =
     (if exclude = repo \<or> strings_Contains exclude ''*'' then True
      else excludeMatches rest repo)"

fun includeLoop :: "string list \<Rightarrow> string list \<Rightarrow> string \<Rightarrow> bool" where
  "includeLoop [] excludes repo = False"
| "includeLoop (target # rest) excludes repo =
     (if target = repo \<or> strings_Contains target ''*''
      then (if excludeMatches excludes repo then False else True)
      else includeLoop rest excludes repo)"

definition rulesetAppliesToRepo :: "OrgRuleset \<Rightarrow> string \<Rightarrow> bool" where
  "rulesetAppliesToRepo ruleset repo =
     (if length (Include (RepositoryName (Conditions ruleset))) > 0
      then includeLoop (Include (RepositoryName (Conditions ruleset)))
             (Exclude (RepositoryName (Conditions ruleset))) repo
      else if excludeMatches (Exclude (RepositoryName (Conditions ruleset))) repo then False
      else True)"

text \<open>
  \<open>analyzeOrgRepositoryRulesets\<close> stores a ruleset as a policy whose restrictions are
  prose: this is the body of its loop.
\<close>

definition rulesetRestrictions :: "OrgRuleset \<Rightarrow> string list" where
  "rulesetRestrictions ruleset =
     (let cond = RepositoryName (Conditions ruleset) in
      [''Enforcement: '' @ Enforcement ruleset]
      @ (if length (Include cond) > 0
         then [''Targets repos: '' @ strings_Join (Include cond) '', '']
         else if length (Exclude cond) = 0 \<and> \<not> Protected cond
         then [''Targets repos: All repositories'']
         else [])
      @ (if length (Exclude cond) > 0
         then [''Excludes repos: '' @ strings_Join (Exclude cond) '', '']
         else [])
      @ (if Protected cond then [''Applies to protected repositories''] else [])
      @ (if length (Rules ruleset) > 0
         then [''Rules: '' @ strings_Join (Rules ruleset) '', '']
         else []))"

definition rulesetOrgPolicy :: "OrgRuleset \<Rightarrow> OrgPolicy" where
  "rulesetOrgPolicy ruleset =
     \<lparr>Name = RulesetName ruleset, PolicyStatus = Enforcement ruleset,
      Restrictions = rulesetRestrictions ruleset\<rparr>"

subsection \<open>On the restriction strings (package batch)\<close>

fun targetMatches :: "string list \<Rightarrow> string \<Rightarrow> bool" where
  "targetMatches [] repo = False"
| "targetMatches (target # rest) repo =
     (if target = repo \<or> strings_Contains target ''*'' then True
      else targetMatches rest repo)"

text \<open>
  The first loop of the method \<open>rulesetAppliesToRepo\<close> of \<open>BatchAnalyzer\<close>: \<open>Some b\<close> when
  it returns \<open>b\<close> at a restriction, \<open>None\<close> when it runs to the end.
\<close>

fun restrictionsLoop :: "string list \<Rightarrow> string \<Rightarrow> bool option" where
  "restrictionsLoop [] repo = None"
| "restrictionsLoop (restriction # rest) repo =
     (if strings_Contains restriction ''Targets repos:'' then
        (let targets = strings_TrimPrefix restriction ''Targets repos: '' in
         if targets = ''All repositories'' then Some True
         else Some (targetMatches (strings_Split targets '', '') repo))
      else if strings_Contains restriction ''Excludes repos:''
              \<and> excludeMatches
                   (strings_Split (strings_TrimPrefix restriction ''Excludes repos: '') '', '')
                   repo
      then Some False
      else restrictionsLoop rest repo)"

fun hasTargets :: "string list \<Rightarrow> bool" where
  "hasTargets [] = False"
| "hasTargets (restriction # rest) =
     (if strings_Contains restriction ''Targets repos:'' then True else hasTargets rest)"

definition BatchAnalyzer_rulesetAppliesToRepo :: "OrgPolicy \<Rightarrow> string \<Rightarrow> bool" where
  "BatchAnalyzer_rulesetAppliesToRepo policy repo =
     (case restrictionsLoop (Restrictions policy) repo of
        Some b \<Rightarrow> b
      | None \<Rightarrow> (if hasTargets (Restrictions policy) then False else True))"

text \<open>
  \<open>filterOrgRulesetsForRepo\<close> appends, to the slice \<open>deps.OrgGovernance.RepositoryPolicies\<close>,
  a copy of each organization policy that applies to the repository. This is the list of
  the policies it appends, in the order of its loop; where each append writes is a matter
  of the slice, which the batch analyzer below models.
\<close>

definition filterOrgRulesetsForRepo :: "string \<Rightarrow> string \<Rightarrow> OrgGovernance \<Rightarrow> OrgPolicy list"
  where
  "filterOrgRulesetsForRepo owner repo orgGovernance =
     map (\<lambda>policy. \<lparr>Name = Name policy, PolicyStatus = PolicyStatus policy,
                      Restrictions = Restrictions policy\<rparr>)
       (filter (\<lambda>policy. BatchAnalyzer_rulesetAppliesToRepo policy repo)
          (OrganizationPolicies orgGovernance))"

section \<open>The batch analyzer (package batch)\<close>

datatype error = errorString string

fun errorMessage :: "error \<Rightarrow> string" where
  "errorMessage (errorString msg) = msg"

definition parseRepository :: "string \<Rightarrow> error + (string \<times> string)" where
  "parseRepository repoSpec =
     (let parts = strings_Split repoSpec ''/'' in
      if length parts \<noteq> 2
      then Inl (errorString (''repository must be in format '' @ [CHR 0x27] @ ''owner/repo''
                  @ [CHR 0x27]))
      else Inr (parts ! 0, parts ! 1))"

record OrgAppsIntegrations =
  OrgInstalledGitHubApps :: "string list"

record OrgInfo =
  DefaultRepositoryPermission :: string
  MembersCanCreateRepos :: bool
  MembersCanCreatePrivateRepos :: bool
  MembersCanCreateInternalRepos :: bool
  MembersCanCreatePublicRepos :: bool
  MembersCanCreatePages :: bool
  MembersCanForkPrivateRepos :: bool
  InfoWebCommitSignoffRequired :: bool
  MembersCanDeleteRepos :: bool
  MembersCanDeleteIssues :: bool
  MembersCanCreateTeams :: bool
  TwoFactorRequirementEnabled :: bool

text \<open>
  \<open>CtxRepositoryPoliciesSpare\<close> is the capacity of the slice \<open>Governance.RepositoryPolicies\<close>
  less its length: the room that the Go runtime left in its backing array when
  \<open>separatePoliciesForJSONOrgLevel\<close> built it by appending.
\<close>

record OrganizationContext =
  CtxOrganization :: string
  CtxApps :: OrgAppsIntegrations
  CtxGovernance :: OrgGovernance
  CtxSecurityCampaigns :: "string list"
  CtxOrganizationRoles :: "string list"
  CtxOrgInfo :: OrgInfo
  CtxRepositoryPoliciesSpare :: nat

record BatchAnalysisResult =
  BatchRepository :: string
  Result :: "OrganizationalDependencies option"
  Error :: "error option"

text \<open>
  The network is a parameter. The four loaders of the organization context and the four
  analyzers of a repository each fill a part of their own, from the answers of the API;
  \<open>Client\<close> gives, for an owner (and a repository), the part each of them leaves behind,
  whether its calls succeeded or not (a failure is swallowed and leaves the part as far as
  it was filled), and the spare capacity that the runtime gave to the slice of repository
  policies.
\<close>

record Client =
  OrgAppsOf :: "string \<Rightarrow> OrgAppsIntegrations"
  OrgGovernanceOf :: "string \<Rightarrow> OrgGovernance"
  OrgInfoOf :: "string \<Rightarrow> OrgInfo"
  OrgCampaignsOf :: "string \<Rightarrow> string list"
  OrgRepositoryPoliciesSpareOf :: "string \<Rightarrow> nat"
  CodeDependenciesOf :: "string \<Rightarrow> string \<Rightarrow> CodeDependencies"
  ActionsCIDependenciesOf :: "string \<Rightarrow> string \<Rightarrow> ActionsCIDependencies"
  AccessPermissionsOf :: "string \<Rightarrow> string \<Rightarrow> AccessPermissions"
  SecurityComplianceOf :: "string \<Rightarrow> string \<Rightarrow> SecurityCompliance"

text \<open>
  \<open>loadOrganizationContext\<close>: the four loaders write the fields \<open>Apps\<close>, \<open>Governance\<close>,
  \<open>OrgInfo\<close> and \<open>SecurityCampaigns\<close>, which are disjoint, and the function returns after
  all four are done, always with a nil error.
\<close>

definition loadOrganizationContext :: "Client \<Rightarrow> string \<Rightarrow> error + OrganizationContext" where
  "loadOrganizationContext client owner =
     Inr \<lparr>CtxOrganization = owner,
          CtxApps = OrgAppsOf client owner,
          CtxGovernance = OrgGovernanceOf client owner,
          CtxSecurityCampaigns = OrgCampaignsOf client owner,
          CtxOrganizationRoles = [],
          CtxOrgInfo = OrgInfoOf client owner,
          CtxRepositoryPoliciesSpare = OrgRepositoryPoliciesSpareOf client owner\<rparr>"

definition emptyGovernance :: OrgGovernance where
  "emptyGovernance =
     \<lparr>OrganizationPolicies = [], RepositoryPolicies = [], MemberPrivileges = [],
      RepositoryRulesets = [], IssueTemplates = [], PullRequestTemplates = [],
      RequiredStatusChecks = []\<rparr>"

definition newDependencies :: "string \<Rightarrow> OrganizationalDependencies" where
  "newDependencies repoSpec =
     \<lparr>Repository = repoSpec,
      DepsCode = \<lparr>InternalRepositoryReferences = [], GitSubmodules = [],
        OrgPackageRegistries = [], HardcodedOrgReferences = [],
        OrgSpecificContainerRegistries = []\<rparr>,
      DepsActionsCI = \<lparr>OrganizationSecrets = [], OrganizationVariables = [],
        SelfHostedRunners = [], EnvironmentDependencies = [], OrgSpecificActions = [],
        RequiredWorkflows = [], CrossRepoWorkflowTriggers = []\<rparr>,
      DepsAccess = \<lparr>Teams = [], IndividualCollaborators = [], OrganizationRoles = [],
        OrganizationMembership = [], CodeownersRequirements = []\<rparr>,
      DepsSecurity = \<lparr>SecurityCampaigns = []\<rparr>,
      DepsApps = \<lparr>InstalledGitHubApps = [], PersonalAccessTokens = []\<rparr>,
      DepsGovernance = emptyGovernance,
      Validation = None\<rparr>"

definition analyzeRepositorySpecificGovernance ::
  "OrganizationContext \<Rightarrow> string \<Rightarrow> string \<Rightarrow> OrgPolicy list" where
  "analyzeRepositorySpecificGovernance orgCtx owner repo =
     filterOrgRulesetsForRepo owner repo (CtxGovernance orgCtx)"

subsection \<open>The slice of repository policies\<close>

text \<open>
  \<open>analyzeRepositoryWithContext\<close> copies the struct \<open>ba.orgCtx.Governance\<close> into the
  dependencies of its repository. The copy of a slice is a copy of its header, so the
  slice \<open>RepositoryPolicies\<close> of every repository starts as the slice of the context: the
  same backing array, the same length and capacity. Go's \<open>append\<close> writes the new element
  into the backing array when the length is below the capacity, and into a fresh array,
  with a copy of the old elements, when it is not.

  \<open>Backing\<close> below is the backing array of the context's slice, as long as its capacity.
  A slice of a repository is \<open>SharedSlice n\<close>, the first \<open>n\<close> elements of that array, or
  \<open>PrivateSlice xs\<close>, an array of its own with the elements \<open>xs\<close>. A write of an element is
  one step; the steps of different goroutines interleave, and a read sees the last write.
\<close>

datatype PolicySlice = SharedSlice nat | PrivateSlice "OrgPolicy list"

definition zeroOrgPolicy :: OrgPolicy where
  "zeroOrgPolicy = \<lparr>Name = [], PolicyStatus = [], Restrictions = []\<rparr>"

definition readSlice :: "OrgPolicy list \<Rightarrow> PolicySlice \<Rightarrow> OrgPolicy list" where
  "readSlice backing slice =
     (case slice of SharedSlice n \<Rightarrow> take n backing | PrivateSlice xs \<Rightarrow> xs)"

definition appendPolicy ::
  "OrgPolicy list \<Rightarrow> PolicySlice \<Rightarrow> OrgPolicy \<Rightarrow> OrgPolicy list \<times> PolicySlice" where
  "appendPolicy backing slice policy =
     (case slice of
        SharedSlice n \<Rightarrow>
          if n < length backing then (backing[n := policy], SharedSlice (Suc n))
          else (backing, PrivateSlice (take n backing @ [policy]))
      | PrivateSlice xs \<Rightarrow> (backing, PrivateSlice (xs @ [policy])))"

subsection \<open>The goroutines of the repositories\<close>

text \<open>
  The goroutine of a repository, between its steps: the policies that its
  \<open>filterOrgRulesetsForRepo\<close> has still to append, its slice of repository policies, and
  whether it has written its element of \<open>results\<close>. A repository whose identifier does
  not parse returns before it copies anything and has nothing to append. The other four
  analyses of a repository write fields of its own dependencies only; they are part of
  the value that the goroutine returns.
\<close>

record Task =
  Pending :: "OrgPolicy list"
  TaskPolicies :: PolicySlice
  Finished :: bool

definition startTask :: "OrganizationContext \<Rightarrow> string \<Rightarrow> Task" where
  "startTask orgCtx repoSpec =
     (case parseRepository repoSpec of
        Inl err \<Rightarrow>
          \<lparr>Pending = [],
           TaskPolicies = SharedSlice (length (RepositoryPolicies (CtxGovernance orgCtx))),
           Finished = False\<rparr>
      | Inr (owner, repo) \<Rightarrow>
          \<lparr>Pending = analyzeRepositorySpecificGovernance orgCtx owner repo,
           TaskPolicies = SharedSlice (length (RepositoryPolicies (CtxGovernance orgCtx))),
           Finished = False\<rparr>)"

record BatchState =
  Backing :: "OrgPolicy list"
  Tasks :: "Task list"

definition startBatch :: "OrganizationContext \<Rightarrow> string list \<Rightarrow> BatchState" where
  "startBatch orgCtx repos =
     \<lparr>Backing = RepositoryPolicies (CtxGovernance orgCtx)
        @ replicate (CtxRepositoryPoliciesSpare orgCtx) zeroOrgPolicy,
      Tasks = map (startTask orgCtx) repos\<rparr>"

text \<open>
  One step of the goroutine of index \<open>index\<close>: its next append, or, when nothing is left
  to append, the write of its element of \<open>results\<close>, after which it has no step. There is
  one goroutine for each index of \<open>repos\<close> and none for any other number.
\<close>

definition stepTask :: "BatchState \<Rightarrow> nat \<Rightarrow> BatchState" where
  "stepTask state index =
     (if index < length (Tasks state) then
        (let task = Tasks state ! index in
         if Finished task then state
         else
           (case Pending task of
              [] \<Rightarrow> state\<lparr>Tasks := (Tasks state)[index := task\<lparr>Finished := True\<rparr>]\<rparr>
            | policy # rest \<Rightarrow>
                (let (backing, slice) = appendPolicy (Backing state) (TaskPolicies task) policy
                 in state\<lparr>Backing := backing,
                      Tasks := (Tasks state)
                        [index := task\<lparr>Pending := rest, TaskPolicies := slice\<rparr>]\<rparr>)))
      else state)"

text \<open>
  \<open>analyzeRepositoryWithContext\<close> returns the pair of Go: the dependencies or nil, and the
  error or nil. The dependencies are a pointer, and what the caller of the batch reads
  through it is the struct with the repository policies that its slice holds then; these
  are the argument \<open>repositoryPolicies\<close>.
\<close>

definition analyzeRepositoryWithContext ::
  "Client \<Rightarrow> OrganizationContext \<Rightarrow> string \<Rightarrow> OrgPolicy list
     \<Rightarrow> OrganizationalDependencies option \<times> error option" where
  "analyzeRepositoryWithContext client orgCtx repoSpec repositoryPolicies =
     (case parseRepository repoSpec of
        Inl err \<Rightarrow> (None, Some err)
      | Inr (owner, repo) \<Rightarrow>
          (let deps = newDependencies repoSpec;
               deps = deps\<lparr>DepsApps := (DepsApps deps)
                        \<lparr>InstalledGitHubApps := OrgInstalledGitHubApps (CtxApps orgCtx)\<rparr>,
                      DepsGovernance := CtxGovernance orgCtx\<rparr>;
               deps = deps\<lparr>DepsCode := CodeDependenciesOf client owner repo\<rparr>;
               deps = deps\<lparr>DepsActionsCI := ActionsCIDependenciesOf client owner repo\<rparr>;
               deps = deps\<lparr>DepsAccess := AccessPermissionsOf client owner repo\<rparr>;
               deps = deps\<lparr>DepsSecurity := SecurityComplianceOf client owner repo\<rparr>;
               deps = deps\<lparr>DepsGovernance := (DepsGovernance deps)
                        \<lparr>RepositoryPolicies := repositoryPolicies\<rparr>\<rparr>
           in (Some deps, None)))"

definition zeroBatchAnalysisResult :: BatchAnalysisResult where
  "zeroBatchAnalysisResult = \<lparr>BatchRepository = [], Result = None, Error = None\<rparr>"

text \<open>
  The element of \<open>results\<close> at an index, as the caller reads it in the state \<open>state\<close>: the
  zero value until the goroutine has written it.
\<close>

definition readResult ::
  "Client \<Rightarrow> OrganizationContext \<Rightarrow> string list \<Rightarrow> BatchState \<Rightarrow> nat \<Rightarrow> BatchAnalysisResult"
  where
  "readResult client orgCtx repos state index =
     (let task = Tasks state ! index; repository = repos ! index in
      if Finished task then
        (let (result, err) =
               analyzeRepositoryWithContext client orgCtx repository
                 (readSlice (Backing state) (TaskPolicies task))
         in \<lparr>BatchRepository = repository, Result = result, Error = err\<rparr>)
      else zeroBatchAnalysisResult)"

text \<open>
  \<open>AnalyzeRepositories\<close>, under a schedule: the list of the indices of the goroutines in
  the order of their steps, as the Go scheduler chooses it. \<open>wg.Wait()\<close> returns when every
  goroutine has written its result; under a schedule that does not bring every goroutine
  to its end the function has not returned, which is \<open>None\<close>. When it returns, it returns
  an error and no results, or the results.
\<close>

definition AnalyzeRepositories ::
  "Client \<Rightarrow> nat list \<Rightarrow> string list \<Rightarrow> (error + BatchAnalysisResult list) option" where
  "AnalyzeRepositories client schedule repos =
     (if length repos = 0 then Some (Inl (errorString ''no repositories provided''))
      else
        (case parseRepository (repos ! 0) of
           Inl err \<Rightarrow>
             Some (Inl (errorString (''failed to parse repository '' @ repos ! 0 @ '': ''
                          @ errorMessage err)))
         | Inr (owner, repo0) \<Rightarrow>
             (case loadOrganizationContext client owner of
                Inl err \<Rightarrow>
                  Some (Inl (errorString (''failed to load organization context: ''
                               @ errorMessage err)))
              | Inr orgCtx \<Rightarrow>
                  (let state = foldl stepTask (startBatch orgCtx repos) schedule in
                   if list_all Finished (Tasks state)
                   then Some (Inr (map (readResult client orgCtx repos state)
                                     [0..<length repos]))
                   else None))))"

section \<open>Policies from the organization settings (package dependencies)\<close>

text \<open>
  \<open>checkSecurityAndMemberPoliciesOrgLevel\<close>, after its call of the API has answered with
  the settings \<open>orgInfo\<close>: the restrictions it collects and the policies it appends.
\<close>

definition membershipRestrictions :: "OrgInfo \<Rightarrow> string list" where
  "membershipRestrictions orgInfo =
     (if \<not> MembersCanCreateRepos orgInfo then [''Repository creation restricted''] else [])
     @ (if \<not> MembersCanForkPrivateRepos orgInfo
        then [''Private repository forking restricted''] else [])
     @ (if \<not> MembersCanDeleteRepos orgInfo then [''Repository deletion restricted''] else [])
     @ (if \<not> MembersCanDeleteIssues orgInfo then [''Issue deletion restricted''] else [])
     @ (if \<not> MembersCanCreateTeams orgInfo then [''Team creation restricted''] else [])"

definition securityRestrictions :: "OrgInfo \<Rightarrow> string list" where
  "securityRestrictions orgInfo =
     (if TwoFactorRequirementEnabled orgInfo
      then [''Two-factor authentication required''] else [])
     @ (if InfoWebCommitSignoffRequired orgInfo then [''Web commit signoff required''] else [])
     @ (if DefaultRepositoryPermission orgInfo \<noteq> ''read''
        then [''Default repository permission: '' @ DefaultRepositoryPermission orgInfo]
        else [])"

definition checkSecurityAndMemberPoliciesOrgLevel :: "OrgInfo \<Rightarrow> OrgGovernance \<Rightarrow> OrgGovernance"
  where
  "checkSecurityAndMemberPoliciesOrgLevel orgInfo governance =
     governance\<lparr>OrganizationPolicies := OrganizationPolicies governance
       @ (if length (membershipRestrictions orgInfo) > 0
          then [\<lparr>Name = ''Member Management Policy'', PolicyStatus = ''active'',
                 Restrictions = membershipRestrictions orgInfo\<rparr>]
          else [])
       @ (if length (securityRestrictions orgInfo) > 0
          then [\<lparr>Name = ''Security Policy'', PolicyStatus = ''active'',
                 Restrictions = securityRestrictions orgInfo\<rparr>]
          else [])\<rparr>"

section \<open>Auxiliary definitions and example inputs\<close>

text \<open>
  \<open>counterSum\<close> is the sum of the six status counters of a summary. \<open>removeAt k\<close> takes
  the element of index \<open>k\<close> out of a list; \<open>withoutTask k\<close> takes the steps of the goroutine
  of index \<open>k\<close> out of a schedule and renumbers the goroutines after it, and
  \<open>withoutTaskState k\<close> takes that goroutine out of a state. The values named
  \<open>example...\<close> are concrete inputs at which the theorems below are instantiated.
\<close>

definition counterSum :: "ValidationSummary \<Rightarrow> int" where
  "counterSum s = Ready s + SetupNeeded s + Blockers s + Warnings s + Review s + Unknown s"

definition exampleRuleset :: "string list \<Rightarrow> string list \<Rightarrow> OrgRuleset" where
  "exampleRuleset inc exc =
     \<lparr>ID = 1, RulesetName = ''main protection'', Enforcement = ''active'',
      Source = ''octo'', Target = ''repository'',
      Conditions = \<lparr>RefName = \<lparr>RefInclude = [], RefExclude = []\<rparr>,
        RepositoryName = \<lparr>Include = inc, Exclude = exc, Protected = False\<rparr>,
        RepositoryProperty = \<lparr>RefInclude = [], RefExclude = []\<rparr>\<rparr>,
      Rules = [''deletion'']\<rparr>"

definition exampleCapabilities :: TargetOrgCapabilities where
  "exampleCapabilities =
     \<lparr>CapOrganization = ''target-org'',
      CapApps = [''Dependabot''],
      CapTeams = [''Frontend''],
      CapRepositoryPolicies = [],
      CapMemberPrivileges = \<lparr>CanCreateRepos = True, CanForkPrivateRepos = False,
        TwoFactorRequired = False, WebCommitSignoffRequired = False,
        DefaultPermission = ''read'', RestrictionsActive = []\<rparr>,
      CapRulesets = [], CapSecrets = [''NPM_TOKEN''], CapVariables = [], CapRunners = []\<rparr>"

definition exampleDependencies :: OrganizationalDependencies where
  "exampleDependencies =
     (newDependencies ''octo/web'')
       \<lparr>DepsAccess := \<lparr>Teams = [''frontend (write)''], IndividualCollaborators = [''alice''],
          OrganizationRoles = [], OrganizationMembership = [],
          CodeownersRequirements =
            [''Team: @octo/frontend'', ''Team: @frontend'', ''User: @bob'', ''*.go @carol'']\<rparr>,
        DepsApps := \<lparr>InstalledGitHubApps = [''dependabot (org-wide installation)''],
          PersonalAccessTokens = []\<rparr>\<rparr>"

definition exampleSummary :: "int \<Rightarrow> int \<Rightarrow> int \<Rightarrow> int \<Rightarrow> int \<Rightarrow> ValidationSummary" where
  "exampleSummary r s b w v =
     \<lparr>Ready = r, SetupNeeded = s, Blockers = b, Warnings = w, Review = v, Unknown = 0,
      Total = r + s + b + w + v\<rparr>"

definition examplePolicy :: OrgPolicy where
  "examplePolicy = rulesetOrgPolicy ((exampleRuleset [] [])\<lparr>RulesetName := ''Repository Creation Policy''\<rparr>)"

definition exampleClient :: Client where
  "exampleClient =
     \<lparr>OrgAppsOf = (\<lambda>owner. \<lparr>OrgInstalledGitHubApps = [''dependabot (org-wide installation)'']\<rparr>),
      OrgGovernanceOf = (\<lambda>owner. emptyGovernance
        \<lparr>OrganizationPolicies := [rulesetOrgPolicy (exampleRuleset [''web-*''] [''web-legacy''])]\<rparr>),
      OrgInfoOf = (\<lambda>owner. \<lparr>DefaultRepositoryPermission = ''read'',
        MembersCanCreateRepos = True, MembersCanCreatePrivateRepos = True,
        MembersCanCreateInternalRepos = False, MembersCanCreatePublicRepos = False,
        MembersCanCreatePages = True, MembersCanForkPrivateRepos = False,
        InfoWebCommitSignoffRequired = False, MembersCanDeleteRepos = False,
        MembersCanDeleteIssues = False, MembersCanCreateTeams = True,
        TwoFactorRequirementEnabled = True\<rparr>),
      OrgCampaignsOf = (\<lambda>owner. []),
      OrgRepositoryPoliciesSpareOf = (\<lambda>owner. 1),
      CodeDependenciesOf = (\<lambda>owner repo. DepsCode (newDependencies [])),
      ActionsCIDependenciesOf = (\<lambda>owner repo. DepsActionsCI (newDependencies [])),
      AccessPermissionsOf = (\<lambda>owner repo. (DepsAccess (newDependencies []))
        \<lparr>Teams := [repo @ ''-maintainers (admin)'']\<rparr>),
      SecurityComplianceOf = (\<lambda>owner repo. DepsSecurity (newDependencies []))\<rparr>"

definition exampleRepos :: "string list" where
  "exampleRepos = [''octo/web-legacy'', ''not-a-repo'', ''octo/api'']"

definition exampleSettingsGovernance :: OrgGovernance where
  "exampleSettingsGovernance =
     checkSecurityAndMemberPoliciesOrgLevel (OrgInfoOf exampleClient ''octo'') emptyGovernance"

definition exampleSecurityPolicy :: OrgPolicy where
  "exampleSecurityPolicy =
     \<lparr>Name = ''Security Policy'', PolicyStatus = ''active'',
      Restrictions = [''Two-factor authentication required'']\<rparr>"

definition exampleTargetedPolicies :: "OrgPolicy list" where
  "exampleTargetedPolicies =
     [rulesetOrgPolicy ((exampleRuleset [''repoA''] [])\<lparr>RulesetName := ''rs-A''\<rparr>),
      rulesetOrgPolicy ((exampleRuleset [''repoB''] [])\<lparr>RulesetName := ''rs-B''\<rparr>),
      rulesetOrgPolicy ((exampleRuleset [''repoC''] [])\<lparr>RulesetName := ''rs-C''\<rparr>)]"

definition exampleSharingClient :: Client where
  "exampleSharingClient =
     exampleClient\<lparr>OrgGovernanceOf := (\<lambda>owner. emptyGovernance
       \<lparr>OrganizationPolicies := exampleTargetedPolicies,
        RepositoryPolicies := exampleTargetedPolicies\<rparr>)\<rparr>"

definition removeAt :: "nat \<Rightarrow> 'a list \<Rightarrow> 'a list" where
  "removeAt k xs = take k xs @ drop (Suc k) xs"

definition withoutTask :: "nat \<Rightarrow> nat list \<Rightarrow> nat list" where
  "withoutTask k schedule =
     map (\<lambda>index. if k < index then index - 1 else index) (filter (\<lambda>index. index \<noteq> k) schedule)"

definition withoutTaskState :: "nat \<Rightarrow> BatchState \<Rightarrow> BatchState" where
  "withoutTaskState k state = \<lparr>Backing = Backing state, Tasks = removeAt k (Tasks state)\<rparr>"

definition policyNames :: "BatchAnalysisResult \<Rightarrow> string list" where
  "policyNames result =
     (case Result result of
        None \<Rightarrow> []
      | Some deps \<Rightarrow> map Name (RepositoryPolicies (DepsGovernance deps)))"

section \<open>Properties of the ruleset target resolver\<close>

lemma strings_Contains_char: "strings_Contains s [c] \<longleftrightarrow> c \<in> set s"
  by (induction s) auto

lemma excludeMatches_iff:
  "excludeMatches xs repo \<longleftrightarrow> (\<exists>e\<in>set xs. e = repo \<or> CHR ''*'' \<in> set e)"
  by (induction xs) (auto simp: strings_Contains_char)

lemma targetMatches_iff:
  "targetMatches xs repo \<longleftrightarrow> (\<exists>e\<in>set xs. e = repo \<or> CHR ''*'' \<in> set e)"
  by (induction xs) (auto simp: strings_Contains_char)

lemma includeLoop_iff:
  "includeLoop inc exc repo \<longleftrightarrow>
     (\<exists>t\<in>set inc. t = repo \<or> CHR ''*'' \<in> set t) \<and> \<not> excludeMatches exc repo"
  by (induction inc) (auto simp: strings_Contains_char)

text \<open>
  C5. On the structured conditions the resolver answers true exactly when (a) the include
  list is empty, or one of its entries is the repository name, or one of its entries
  contains the character \<open>*\<close>, and (b) no entry of the exclude list is the repository name
  and none contains \<open>*\<close>. So a non-empty include list without a matching entry gives
  false, and two empty lists give true for every name.
\<close>

theorem rulesetAppliesToRepo_exact:
  fixes ruleset :: OrgRuleset and repo :: string
  defines "inc \<equiv> Include (RepositoryName (Conditions ruleset))"
      and "exc \<equiv> Exclude (RepositoryName (Conditions ruleset))"
  shows "(rulesetAppliesToRepo ruleset repo \<longleftrightarrow>
            (inc = [] \<or> (\<exists>t\<in>set inc. t = repo) \<or> (\<exists>t\<in>set inc. CHR ''*'' \<in> set t))
            \<and> (\<forall>e\<in>set exc. e \<noteq> repo) \<and> (\<forall>e\<in>set exc. CHR ''*'' \<notin> set e))
         \<and> (inc \<noteq> [] \<and> (\<forall>t\<in>set inc. t \<noteq> repo \<and> CHR ''*'' \<notin> set t)
              \<longrightarrow> \<not> rulesetAppliesToRepo ruleset repo)
         \<and> (inc = [] \<and> exc = [] \<longrightarrow> rulesetAppliesToRepo ruleset repo)"
  unfolding inc_def exc_def rulesetAppliesToRepo_def
  by (auto simp: includeLoop_iff excludeMatches_iff)

theorem rulesetAppliesToRepo_exact_witness:
  "\<not> rulesetAppliesToRepo (exampleRuleset [''repoA''] []) ''repoB''
   \<and> rulesetAppliesToRepo (exampleRuleset [] []) ''any-repo''
   \<and> \<not> rulesetAppliesToRepo (exampleRuleset [''web-*''] [''web-legacy'']) ''web-legacy''
   \<and> rulesetAppliesToRepo (exampleRuleset [''web-*''] [''web-legacy'']) ''web-shop''"
  using rulesetAppliesToRepo_exact [of "exampleRuleset [''repoA''] []" "''repoB''"]
        rulesetAppliesToRepo_exact [of "exampleRuleset [] []" "''any-repo''"]
        rulesetAppliesToRepo_exact [of "exampleRuleset [''web-*''] [''web-legacy'']" "''web-legacy''"]
        rulesetAppliesToRepo_exact [of "exampleRuleset [''web-*''] [''web-legacy'']" "''web-shop''"]
  by (simp add: exampleRuleset_def)

section \<open>Properties of the summary\<close>

lemma Total_foldl_countResult:
  "Total (foldl countResult s rs) = Total s + int (length rs)"
  by (induction rs arbitrary: s)
     (auto simp: countResult_def Let_def split: ValidationStatus.splits)

lemma counterSum_countResult: "counterSum (countResult s r) = counterSum s + 1"
  by (simp add: countResult_def counterSum_def Let_def split: ValidationStatus.splits)

lemma counterSum_foldl_countResult:
  "counterSum (foldl countResult s rs) = counterSum s + int (length rs)"
  by (induction rs arbitrary: s) (simp_all add: counterSum_countResult)

lemma Summary_ValidateAgainstTarget:
  "Summary (ValidateAgainstTarget deps capabilities assignTeams) =
     foldl countResult emptySummary
       (allResults (ValidateAgainstTarget deps capabilities assignTeams))"
  by (simp add: ValidateAgainstTarget_def Let_def calculateSummary_def allResults_def)

lemma OverallReadiness_ValidateAgainstTarget:
  "OverallReadiness (ValidateAgainstTarget deps capabilities assignTeams) =
     determineOverallReadiness (Summary (ValidateAgainstTarget deps capabilities assignTeams))"
  by (simp add: ValidateAgainstTarget_def Let_def)

text \<open>
  C7. In the validation that \<open>ValidateAgainstTarget\<close> returns, the total of the summary
  is the sum of its six counters, and it is the number of results in the six lists.
\<close>

theorem ValidateAgainstTarget_total:
  fixes deps :: OrganizationalDependencies
    and capabilities :: TargetOrgCapabilities and assignTeams :: bool
  defines "v \<equiv> ValidateAgainstTarget deps capabilities assignTeams"
  shows "Total (Summary v) =
           Ready (Summary v) + SetupNeeded (Summary v) + Blockers (Summary v)
           + Warnings (Summary v) + Review (Summary v) + Unknown (Summary v)
         \<and> Total (Summary v) =
             int (length (ValAppsIntegrations v) + length (ValAccessPermissions v)
                  + length (ValCIDependencies v) + length (ValGovernance v)
                  + length (ValCodeDependencies v) + length (ValSecurityCompliance v))"
proof -
  have s: "Summary v = foldl countResult emptySummary (allResults v)"
    unfolding v_def by (rule Summary_ValidateAgainstTarget)
  have "Total (Summary v) = int (length (allResults v))"
    by (simp add: s Total_foldl_countResult emptySummary_def)
  moreover have "counterSum (Summary v) = int (length (allResults v))"
    by (simp add: s counterSum_foldl_countResult) (simp add: counterSum_def emptySummary_def)
  ultimately show ?thesis
    by (simp add: counterSum_def allResults_def)
qed

text \<open>
  C6. The overall readiness is the first of: blocker when there is a blocker; setup needed
  when something needs setup or review; warning when there is a warning; ready when the
  ready counter is the total; unknown. This holds of the function on every summary and
  the readiness of a validation is the function at its summary; so the readiness is
  blocker exactly when the blocker counter is positive.
\<close>

theorem determineOverallReadiness_precedence:
  fixes deps :: OrganizationalDependencies
    and capabilities :: TargetOrgCapabilities and assignTeams :: bool
  defines "v \<equiv> ValidateAgainstTarget deps capabilities assignTeams"
  shows "OverallReadiness v = determineOverallReadiness (Summary v)
    \<and> (Blockers s > 0 \<longrightarrow> determineOverallReadiness s = ValidationBlocker)
    \<and> (\<not> Blockers s > 0 \<and> (SetupNeeded s > 0 \<or> Review s > 0)
         \<longrightarrow> determineOverallReadiness s = ValidationSetupNeeded)
    \<and> (\<not> Blockers s > 0 \<and> \<not> (SetupNeeded s > 0 \<or> Review s > 0) \<and> Warnings s > 0
         \<longrightarrow> determineOverallReadiness s = ValidationWarning)
    \<and> (\<not> Blockers s > 0 \<and> \<not> (SetupNeeded s > 0 \<or> Review s > 0) \<and> \<not> Warnings s > 0
         \<and> Ready s = Total s
         \<longrightarrow> determineOverallReadiness s = ValidationReady)
    \<and> (\<not> Blockers s > 0 \<and> \<not> (SetupNeeded s > 0 \<or> Review s > 0) \<and> \<not> Warnings s > 0
         \<and> Ready s \<noteq> Total s
         \<longrightarrow> determineOverallReadiness s = ValidationUnknown)
    \<and> (determineOverallReadiness s = ValidationBlocker \<longleftrightarrow> Blockers s > 0)
    \<and> (OverallReadiness v = ValidationBlocker \<longleftrightarrow> Blockers (Summary v) > 0)"
  unfolding v_def OverallReadiness_ValidateAgainstTarget
  by (simp add: determineOverallReadiness_def)

theorem determineOverallReadiness_precedence_witness:
  "determineOverallReadiness (exampleSummary 3 1 2 1 1) = ValidationBlocker
   \<and> determineOverallReadiness (exampleSummary 3 0 0 1 1) = ValidationSetupNeeded
   \<and> determineOverallReadiness (exampleSummary 3 0 0 1 0) = ValidationWarning
   \<and> determineOverallReadiness (exampleSummary 3 0 0 0 0) = ValidationReady
   \<and> determineOverallReadiness ((exampleSummary 3 0 0 0 0)\<lparr>Unknown := 1, Total := 4\<rparr>)
       = ValidationUnknown"
  using determineOverallReadiness_precedence [where s = "exampleSummary 3 1 2 1 1"]
        determineOverallReadiness_precedence [where s = "exampleSummary 3 0 0 1 1"]
        determineOverallReadiness_precedence [where s = "exampleSummary 3 0 0 1 0"]
        determineOverallReadiness_precedence [where s = "exampleSummary 3 0 0 0 0"]
        determineOverallReadiness_precedence
          [where s = "(exampleSummary 3 0 0 0 0)\<lparr>Unknown := 1, Total := 4\<rparr>"]
  by (simp add: exampleSummary_def)

text \<open>
  C8. The flag \<open>assignTeams\<close> changes nothing: the validation with the flag set is the
  validation with the flag cleared, in every list, in the summary and in the readiness.
\<close>

theorem assignTeams_has_no_effect:
  "ValidateAgainstTarget deps capabilities True = ValidateAgainstTarget deps capabilities False"
  by (simp add: ValidateAgainstTarget_def validateAccessPermissions_def)

section \<open>Statuses\<close>

lemma validateRepositoryPolicy_Status:
  "Status (validateRepositoryPolicy policy targets) \<in> {ValidationReview, ValidationSetupNeeded}"
  by (induction targets) simp_all

lemma validateMemberPrivilegePolicy_Status:
  "Status (validateMemberPrivilegePolicy policy privileges)
     \<in> {ValidationReady, ValidationSetupNeeded}"
  by (simp add: validateMemberPrivilegePolicy_def Let_def)

lemma validatePolicy_Status:
  "Status (validatePolicy capabilities policy)
     \<in> {ValidationReady, ValidationSetupNeeded, ValidationReview}"
  using validateRepositoryPolicy_Status [of policy "CapRepositoryPolicies capabilities"]
        validateMemberPrivilegePolicy_Status [of policy "CapMemberPrivileges capabilities"]
  by (auto simp: validatePolicy_def)

lemma validateCodeownersRequirement_Status:
  "r \<in> set (validateCodeownersRequirement capabilities requirement)
     \<Longrightarrow> Status r \<noteq> ValidationUnknown"
  by (auto simp: validateCodeownersRequirement_def Let_def split: if_splits)

lemma validateAppsIntegrations_Status:
  "r \<in> set (validateAppsIntegrations apps capabilities) \<Longrightarrow> Status r \<noteq> ValidationUnknown"
  by (auto simp: validateAppsIntegrations_def validateApp_def Let_def)

lemma validateAccessPermissions_Status:
  "r \<in> set (validateAccessPermissions access capabilities assignTeams)
     \<Longrightarrow> Status r \<noteq> ValidationUnknown"
  by (auto simp: validateAccessPermissions_def validateTeam_def validateCollaborator_def Let_def
           dest: validateCodeownersRequirement_Status)

lemma validateCIDependencies_Status:
  "r \<in> set (validateCIDependencies ci capabilities) \<Longrightarrow> Status r \<noteq> ValidationUnknown"
  by (auto simp: validateCIDependencies_def validateSecret_def validateVariable_def
                 validateRunner_def validateRequiredWorkflow_def Let_def)

lemma validateGovernance_Status:
  "r \<in> set (validateGovernance governance capabilities) \<Longrightarrow> Status r \<noteq> ValidationUnknown"
proof -
  have "Status (validatePolicy capabilities p) \<noteq> ValidationUnknown" for p
    using validatePolicy_Status [of capabilities p] by auto
  then show "r \<in> set (validateGovernance governance capabilities)
               \<Longrightarrow> Status r \<noteq> ValidationUnknown"
    by (auto simp: validateGovernance_def validateIssueTemplate_def
                   validatePullRequestTemplate_def)
qed

lemma validateCodeDependencies_Status:
  "r \<in> set (validateCodeDependencies code capabilities) \<Longrightarrow> Status r \<noteq> ValidationUnknown"
  by (auto simp: validateCodeDependencies_def validateSubmodule_def)

lemma validateSecurityCompliance_Status:
  "r \<in> set (validateSecurityCompliance security capabilities)
     \<Longrightarrow> Status r \<noteq> ValidationUnknown"
  by (auto simp: validateSecurityCompliance_def validateCampaign_def)

lemma allResults_ValidateAgainstTarget:
  "allResults (ValidateAgainstTarget deps capabilities assignTeams) =
     validateAppsIntegrations (DepsApps deps) capabilities
     @ validateAccessPermissions (DepsAccess deps) capabilities assignTeams
     @ validateCIDependencies (DepsActionsCI deps) capabilities
     @ validateGovernance (DepsGovernance deps) capabilities
     @ validateCodeDependencies (DepsCode deps) capabilities
     @ validateSecurityCompliance (DepsSecurity deps) capabilities"
  by (simp add: allResults_def ValidateAgainstTarget_def Let_def)

lemma allResults_Status:
  "r \<in> set (allResults (ValidateAgainstTarget deps capabilities assignTeams))
     \<Longrightarrow> Status r \<noteq> ValidationUnknown"
  unfolding allResults_ValidateAgainstTarget
  by (auto dest: validateAppsIntegrations_Status validateAccessPermissions_Status
                 validateCIDependencies_Status validateGovernance_Status
                 validateCodeDependencies_Status validateSecurityCompliance_Status)

lemma Unknown_foldl_countResult:
  "(\<And>r. r \<in> set rs \<Longrightarrow> Status r \<noteq> ValidationUnknown)
     \<Longrightarrow> Unknown (foldl countResult s rs) = Unknown s"
  by (induction rs arbitrary: s)
     (auto simp: countResult_def Let_def split: ValidationStatus.splits)

lemma nonneg_foldl_countResult:
  "0 \<le> SetupNeeded s \<and> 0 \<le> Blockers s \<and> 0 \<le> Warnings s \<and> 0 \<le> Review s
     \<Longrightarrow> 0 \<le> SetupNeeded (foldl countResult s rs) \<and> 0 \<le> Blockers (foldl countResult s rs)
         \<and> 0 \<le> Warnings (foldl countResult s rs) \<and> 0 \<le> Review (foldl countResult s rs)"
proof (induction rs arbitrary: s)
  case Nil
  then show ?case by simp
next
  case (Cons r rs)
  have "0 \<le> SetupNeeded (countResult s r) \<and> 0 \<le> Blockers (countResult s r)
        \<and> 0 \<le> Warnings (countResult s r) \<and> 0 \<le> Review (countResult s r)"
    using Cons.prems by (simp add: countResult_def Let_def split: ValidationStatus.splits)
  from Cons.IH [OF this] show ?case by simp
qed

text \<open>
  C9. Every result that \<open>ValidateAgainstTarget\<close> creates has one of the statuses ready,
  setup needed, blocker, warning and review, never unknown; so the unknown counter of its
  summary is zero and its overall readiness is never unknown.
\<close>

theorem ValidateAgainstTarget_never_unknown:
  fixes deps :: OrganizationalDependencies
    and capabilities :: TargetOrgCapabilities and assignTeams :: bool
  defines "v \<equiv> ValidateAgainstTarget deps capabilities assignTeams"
  shows "(\<forall>r \<in> set (ValAppsIntegrations v) \<union> set (ValAccessPermissions v)
              \<union> set (ValCIDependencies v) \<union> set (ValGovernance v)
              \<union> set (ValCodeDependencies v) \<union> set (ValSecurityCompliance v).
            Status r \<in> {ValidationReady, ValidationSetupNeeded, ValidationBlocker,
                         ValidationWarning, ValidationReview})
         \<and> Unknown (Summary v) = 0
         \<and> OverallReadiness v \<noteq> ValidationUnknown"
proof -
  have st: "Status r \<noteq> ValidationUnknown" if "r \<in> set (allResults v)" for r
    using that unfolding v_def by (rule allResults_Status)
  have s: "Summary v = foldl countResult emptySummary (allResults v)"
    unfolding v_def by (rule Summary_ValidateAgainstTarget)
  have u: "Unknown (Summary v) = 0"
    unfolding s using Unknown_foldl_countResult [of "allResults v" emptySummary] st
    by (simp add: emptySummary_def)
  have n: "0 \<le> SetupNeeded (Summary v) \<and> 0 \<le> Blockers (Summary v)
           \<and> 0 \<le> Warnings (Summary v) \<and> 0 \<le> Review (Summary v)"
    unfolding s by (rule nonneg_foldl_countResult) (simp add: emptySummary_def)
  have t: "counterSum (Summary v) = Total (Summary v)"
    unfolding s by (simp add: counterSum_foldl_countResult Total_foldl_countResult)
                   (simp add: counterSum_def emptySummary_def)
  have "OverallReadiness v = determineOverallReadiness (Summary v)"
    unfolding v_def by (rule OverallReadiness_ValidateAgainstTarget)
  then have o: "OverallReadiness v \<noteq> ValidationUnknown"
    using u n t by (auto simp: determineOverallReadiness_def counterSum_def)
  have "Status r \<in> {ValidationReady, ValidationSetupNeeded, ValidationBlocker,
                     ValidationWarning, ValidationReview}"
    if "r \<in> set (allResults v)" for r
    using st [OF that] by (cases "Status r") simp_all
  then show ?thesis
    using u o by (auto simp: allResults_def)
qed

theorem ValidateAgainstTarget_never_unknown_witness:
  "map Status (ValAppsIntegrations
      (ValidateAgainstTarget exampleDependencies exampleCapabilities False))
     = [ValidationReady]
   \<and> map Status (ValAccessPermissions
        (ValidateAgainstTarget exampleDependencies exampleCapabilities False))
     = [ValidationReady, ValidationWarning, ValidationReady, ValidationWarning]
   \<and> Unknown (Summary (ValidateAgainstTarget exampleDependencies exampleCapabilities False)) = 0
   \<and> OverallReadiness (ValidateAgainstTarget exampleDependencies exampleCapabilities False)
     \<noteq> ValidationUnknown"
proof -
  have "map Status (ValAppsIntegrations
      (ValidateAgainstTarget exampleDependencies exampleCapabilities False))
     = [ValidationReady]"
    by code_simp
  moreover have "map Status (ValAccessPermissions
        (ValidateAgainstTarget exampleDependencies exampleCapabilities False))
     = [ValidationReady, ValidationWarning, ValidationReady, ValidationWarning]"
    by code_simp
  ultimately show ?thesis
    using ValidateAgainstTarget_never_unknown [of exampleDependencies exampleCapabilities False]
    by simp
qed

section \<open>CODEOWNERS requirements without a result\<close>

lemma length_validateCodeownersRequirement:
  "length (validateCodeownersRequirement capabilities requirement) \<le> 1"
  by (simp add: validateCodeownersRequirement_def Let_def)

lemma length_concat_validateCodeownersRequirement:
  "length (concat (map (validateCodeownersRequirement capabilities) reqs)) \<le> length reqs"
proof (induction reqs)
  case Nil
  then show ?case by simp
next
  case (Cons r reqs)
  then show ?case
    using length_validateCodeownersRequirement [of capabilities r] by simp
qed

lemma validateCodeownersRequirement_omitted:
  "strings_HasPrefix requirement ''Team: @''
     \<and> length (strings_Split (strings_TrimPrefix requirement ''Team: @'') ''/'') \<noteq> 2
   \<or> \<not> strings_HasPrefix requirement ''Team: @''
     \<and> \<not> strings_HasPrefix requirement ''User: @''
   \<Longrightarrow> validateCodeownersRequirement capabilities requirement = []"
  by (auto simp: validateCodeownersRequirement_def Let_def)

lemma ValidateAgainstTarget_cong:
  "validateAccessPermissions (DepsAccess deps) capabilities assignTeams
     = validateAccessPermissions (DepsAccess deps') capabilities assignTeams
   \<Longrightarrow> DepsCode deps = DepsCode deps' \<Longrightarrow> DepsActionsCI deps = DepsActionsCI deps'
   \<Longrightarrow> DepsSecurity deps = DepsSecurity deps' \<Longrightarrow> DepsApps deps = DepsApps deps'
   \<Longrightarrow> DepsGovernance deps = DepsGovernance deps'
   \<Longrightarrow> ValidateAgainstTarget deps capabilities assignTeams
       = ValidateAgainstTarget deps' capabilities assignTeams"
  by (simp add: ValidateAgainstTarget_def Let_def calculateSummary_def allResults_def)

text \<open>
  C10. A CODEOWNERS requirement that starts with \<open>Team: @\<close> and whose rest does not split
  at \<open>/\<close> into exactly two parts, or that starts with neither \<open>Team: @\<close> nor
  \<open>User: @\<close>, gives no result: the access list and the whole validation, with its summary,
  are those of the input without the requirement, and the access list has fewer results
  than there are teams, collaborators and requirements.
\<close>

theorem codeowners_requirement_omitted:
  assumes "strings_HasPrefix requirement ''Team: @''
             \<and> length (strings_Split (strings_TrimPrefix requirement ''Team: @'') ''/'') \<noteq> 2
           \<or> \<not> strings_HasPrefix requirement ''Team: @''
             \<and> \<not> strings_HasPrefix requirement ''User: @''"
  shows "validateCodeownersRequirement capabilities requirement = []
    \<and> validateAccessPermissions
          (access\<lparr>CodeownersRequirements := before @ requirement # after\<rparr>)
          capabilities assignTeams
        = validateAccessPermissions (access\<lparr>CodeownersRequirements := before @ after\<rparr>)
            capabilities assignTeams
    \<and> ValidateAgainstTarget
          (deps\<lparr>DepsAccess := access\<lparr>CodeownersRequirements := before @ requirement # after\<rparr>\<rparr>)
          capabilities assignTeams
        = ValidateAgainstTarget
            (deps\<lparr>DepsAccess := access\<lparr>CodeownersRequirements := before @ after\<rparr>\<rparr>)
            capabilities assignTeams
    \<and> length (validateAccessPermissions
          (access\<lparr>CodeownersRequirements := before @ requirement # after\<rparr>)
          capabilities assignTeams)
        < length (Teams access) + length (IndividualCollaborators access)
          + length (before @ requirement # after)"
proof -
  have none: "validateCodeownersRequirement capabilities requirement = []"
    using assms by (rule validateCodeownersRequirement_omitted)
  have same: "validateAccessPermissions
          (access\<lparr>CodeownersRequirements := before @ requirement # after\<rparr>)
          capabilities assignTeams
        = validateAccessPermissions (access\<lparr>CodeownersRequirements := before @ after\<rparr>)
            capabilities assignTeams"
    by (simp add: validateAccessPermissions_def none)
  have whole: "ValidateAgainstTarget
          (deps\<lparr>DepsAccess := access\<lparr>CodeownersRequirements := before @ requirement # after\<rparr>\<rparr>)
          capabilities assignTeams
        = ValidateAgainstTarget
            (deps\<lparr>DepsAccess := access\<lparr>CodeownersRequirements := before @ after\<rparr>\<rparr>)
            capabilities assignTeams"
    by (rule ValidateAgainstTarget_cong) (simp_all add: same)
  have "length (validateAccessPermissions (access\<lparr>CodeownersRequirements := before @ after\<rparr>)
            capabilities assignTeams)
        \<le> length (Teams access) + length (IndividualCollaborators access)
          + length (before @ after)"
    using length_concat_validateCodeownersRequirement [of capabilities "before @ after"]
    by (simp add: validateAccessPermissions_def)
  then have fewer: "length (validateAccessPermissions
          (access\<lparr>CodeownersRequirements := before @ requirement # after\<rparr>)
          capabilities assignTeams)
        < length (Teams access) + length (IndividualCollaborators access)
          + length (before @ requirement # after)"
    unfolding same by simp
  show ?thesis
    using none same whole fewer by blast
qed

theorem codeowners_requirement_omitted_witness:
  "validateCodeownersRequirement exampleCapabilities ''Team: @frontend'' = []
   \<and> validateCodeownersRequirement exampleCapabilities ''*.go @carol'' = []
   \<and> ValidateAgainstTarget exampleDependencies exampleCapabilities False
     = ValidateAgainstTarget
         (exampleDependencies\<lparr>DepsAccess := (DepsAccess exampleDependencies)
            \<lparr>CodeownersRequirements := [''Team: @octo/frontend'', ''User: @bob'']\<rparr>\<rparr>)
         exampleCapabilities False
   \<and> length (validateAccessPermissions (DepsAccess exampleDependencies)
        exampleCapabilities False) < 6"
proof -
  have t: "strings_HasPrefix ''Team: @frontend'' ''Team: @''
             \<and> length (strings_Split (strings_TrimPrefix ''Team: @frontend'' ''Team: @'') ''/'')
                 \<noteq> 2
           \<or> \<not> strings_HasPrefix ''Team: @frontend'' ''Team: @''
             \<and> \<not> strings_HasPrefix ''Team: @frontend'' ''User: @''"
    by code_simp
  have c: "strings_HasPrefix ''*.go @carol'' ''Team: @''
             \<and> length (strings_Split (strings_TrimPrefix ''*.go @carol'' ''Team: @'') ''/'')
                 \<noteq> 2
           \<or> \<not> strings_HasPrefix ''*.go @carol'' ''Team: @''
             \<and> \<not> strings_HasPrefix ''*.go @carol'' ''User: @''"
    by code_simp
  have a: "(DepsAccess exampleDependencies)\<lparr>CodeownersRequirements :=
             [''Team: @octo/frontend''] @ ''Team: @frontend'' # [''User: @bob'', ''*.go @carol'']\<rparr>
           = DepsAccess exampleDependencies"
    by (simp add: exampleDependencies_def newDependencies_def)
  have d: "exampleDependencies\<lparr>DepsAccess := DepsAccess exampleDependencies\<rparr>
           = exampleDependencies"
    by simp
  have l: "length (Teams (DepsAccess exampleDependencies))
           + length (IndividualCollaborators (DepsAccess exampleDependencies)) = 2"
    by (simp add: exampleDependencies_def newDependencies_def)
  note w1 = codeowners_requirement_omitted [OF t, where capabilities = exampleCapabilities
      and access = "DepsAccess exampleDependencies" and before = "[''Team: @octo/frontend'']"
      and after = "[''User: @bob'', ''*.go @carol'']" and assignTeams = False
      and deps = exampleDependencies, unfolded a d]
  note w2 = codeowners_requirement_omitted [OF c, where capabilities = exampleCapabilities
      and access = "DepsAccess exampleDependencies"
      and before = "[''Team: @octo/frontend'', ''User: @bob'']"
      and after = "[]" and assignTeams = False and deps = exampleDependencies]
  have n1: "validateCodeownersRequirement exampleCapabilities ''Team: @frontend'' = []"
    using w1 by blast
  have n2: "validateCodeownersRequirement exampleCapabilities ''*.go @carol'' = []"
    using w2 by blast
  have s1: "ValidateAgainstTarget exampleDependencies exampleCapabilities False
     = ValidateAgainstTarget
         (exampleDependencies\<lparr>DepsAccess := (DepsAccess exampleDependencies)
            \<lparr>CodeownersRequirements :=
               [''Team: @octo/frontend''] @ [''User: @bob'', ''*.go @carol'']\<rparr>\<rparr>)
         exampleCapabilities False"
    using w1 by blast
  have s2: "ValidateAgainstTarget
         (exampleDependencies\<lparr>DepsAccess := (DepsAccess exampleDependencies)
            \<lparr>CodeownersRequirements :=
               [''Team: @octo/frontend'', ''User: @bob''] @ ''*.go @carol'' # []\<rparr>\<rparr>)
         exampleCapabilities False
     = ValidateAgainstTarget
         (exampleDependencies\<lparr>DepsAccess := (DepsAccess exampleDependencies)
            \<lparr>CodeownersRequirements := [''Team: @octo/frontend'', ''User: @bob''] @ []\<rparr>\<rparr>)
         exampleCapabilities False"
    using w2 by blast
  have "length (validateAccessPermissions (DepsAccess exampleDependencies)
          exampleCapabilities False)
        < length (Teams (DepsAccess exampleDependencies))
          + length (IndividualCollaborators (DepsAccess exampleDependencies))
          + length ([''Team: @octo/frontend''] @ ''Team: @frontend''
                    # [''User: @bob'', ''*.go @carol''])"
    using w1 by blast
  then have s3: "length (validateAccessPermissions (DepsAccess exampleDependencies)
        exampleCapabilities False) < 6"
    unfolding l by simp
  have s12: "ValidateAgainstTarget exampleDependencies exampleCapabilities False
     = ValidateAgainstTarget
         (exampleDependencies\<lparr>DepsAccess := (DepsAccess exampleDependencies)
            \<lparr>CodeownersRequirements := [''Team: @octo/frontend'', ''User: @bob'']\<rparr>\<rparr>)
         exampleCapabilities False"
    using s1 s2 by simp
  show ?thesis
    using n1 n2 s12 s3 by blast
qed

section \<open>The resolver on restriction strings\<close>

text \<open>
  C4. The claim is that an exclude entry that matches wins over an include entry that
  matches, in whatever order the two restrictions stand. The loop of the batch resolver
  returns at the first restriction that names targets, before it reads a later one that
  names excludes, and \<open>analyzeOrgRepositoryRulesets\<close> writes the targets first. For the
  ruleset that includes \<open>web-*\<close> and excludes \<open>web-legacy\<close>, the resolver on the
  conditions answers false for \<open>web-legacy\<close> and the resolver on the restrictions
  answers true; with the two restrictions in the other order it answers false.
\<close>

theorem BatchAnalyzer_rulesetAppliesToRepo_include_before_exclude:
  "Restrictions (rulesetOrgPolicy (exampleRuleset [''web-*''] [''web-legacy'']))
     = [''Enforcement: active'', ''Targets repos: web-*'', ''Excludes repos: web-legacy'',
        ''Rules: deletion'']
   \<and> \<not> rulesetAppliesToRepo (exampleRuleset [''web-*''] [''web-legacy'']) ''web-legacy''
   \<and> BatchAnalyzer_rulesetAppliesToRepo
        (rulesetOrgPolicy (exampleRuleset [''web-*''] [''web-legacy''])) ''web-legacy''
   \<and> BatchAnalyzer_rulesetAppliesToRepo
        (rulesetOrgPolicy (exampleRuleset [''web-legacy''] [''web-legacy''])) ''web-legacy''
   \<and> \<not> BatchAnalyzer_rulesetAppliesToRepo
        \<lparr>Name = ''main protection'', PolicyStatus = ''active'',
         Restrictions = [''Excludes repos: web-legacy'', ''Targets repos: web-*'']\<rparr>
        ''web-legacy''"
  by code_simp

section \<open>The batch\<close>

lemma length_Tasks_stepTask [simp]:
  "length (Tasks (stepTask state index)) = length (Tasks state)"
  by (simp add: stepTask_def Let_def split: list.splits prod.splits)

lemma length_Tasks_foldl_stepTask [simp]:
  "length (Tasks (foldl stepTask state schedule)) = length (Tasks state)"
  by (induction schedule arbitrary: state) simp_all

lemma length_Tasks_startBatch [simp]:
  "length (Tasks (startBatch orgCtx repos)) = length repos"
  by (simp add: startBatch_def)

lemma stepTask_other:
  "i \<noteq> index \<Longrightarrow> Tasks (stepTask state index) ! i = Tasks state ! i"
  by (simp add: stepTask_def Let_def split: list.splits prod.splits)

lemma stepTask_Finished_self:
  "index < length (Tasks state)
     \<Longrightarrow> Finished (Tasks (stepTask state index) ! index)
         \<longleftrightarrow> Finished (Tasks state ! index) \<or> Pending (Tasks state ! index) = []"
  by (simp add: stepTask_def Let_def split: list.splits prod.splits)

lemma stepTask_Pending_self:
  "index < length (Tasks state) \<Longrightarrow> \<not> Finished (Tasks state ! index)
     \<Longrightarrow> Pending (Tasks (stepTask state index) ! index) = tl (Pending (Tasks state ! index))"
  by (simp add: stepTask_def Let_def split: list.splits prod.splits)

text \<open>A goroutine has written its result when it has had a step more than it appends.\<close>

lemma Finished_foldl_stepTask:
  "i < length (Tasks state)
     \<Longrightarrow> Finished (Tasks (foldl stepTask state schedule) ! i)
         \<longleftrightarrow> Finished (Tasks state ! i)
             \<or> length (Pending (Tasks state ! i)) < count_list schedule i"
proof (induction schedule arbitrary: state)
  case Nil
  then show ?case by simp
next
  case (Cons index schedule)
  have l: "i < length (Tasks (stepTask state index))"
    using Cons.prems by simp
  note ih = Cons.IH [OF l]
  show ?case
  proof (cases "i = index")
    case False
    then show ?thesis
      using ih by (simp add: stepTask_other)
  next
    case True
    show ?thesis
    proof (cases "Finished (Tasks state ! index)")
      case f: True
      then show ?thesis
        using ih True Cons.prems by (simp add: stepTask_Finished_self)
    next
      case f: False
      show ?thesis
      proof (cases "Pending (Tasks state ! index)")
        case Nil
        then show ?thesis
          using ih True Cons.prems by (simp add: stepTask_Finished_self)
      next
        case (Cons policy rest)
        then show ?thesis
          using ih True Cons.prems f
          by (simp add: stepTask_Finished_self stepTask_Pending_self)
      qed
    qed
  qed
qed

lemma length_Pending_startTask:
  "length (Pending (startTask orgCtx repoSpec))
     \<le> length (OrganizationPolicies (CtxGovernance orgCtx))"
  by (simp add: startTask_def analyzeRepositorySpecificGovernance_def
        filterOrgRulesetsForRepo_def split: sum.splits)

lemma Finished_startTask [simp]: "\<not> Finished (startTask orgCtx repoSpec)"
  by (simp add: startTask_def split: sum.splits)

lemma AnalyzeRepositories_returns:
  assumes "repos \<noteq> []" and "parseRepository (repos ! 0) = Inr (owner, repo0)"
    and "\<And>i. i < length repos
           \<Longrightarrow> length (OrganizationPolicies (OrgGovernanceOf client owner))
                 < count_list schedule i"
  shows "AnalyzeRepositories client schedule repos \<noteq> None"
proof -
  obtain orgCtx where c: "loadOrganizationContext client owner = Inr orgCtx"
    and g: "CtxGovernance orgCtx = OrgGovernanceOf client owner"
    by (simp add: loadOrganizationContext_def)
  have "Finished (Tasks (foldl stepTask (startBatch orgCtx repos) schedule) ! i)"
    if i: "i < length repos" for i
  proof -
    have "length (Pending (Tasks (startBatch orgCtx repos) ! i))
            \<le> length (OrganizationPolicies (OrgGovernanceOf client owner))"
      using i length_Pending_startTask [of orgCtx "repos ! i"] by (simp add: startBatch_def g)
    then have "length (Pending (Tasks (startBatch orgCtx repos) ! i)) < count_list schedule i"
      using assms(3) [OF i] by simp
    then show ?thesis
      using i by (simp add: Finished_foldl_stepTask)
  qed
  then have "list_all Finished (Tasks (foldl stepTask (startBatch orgCtx repos) schedule))"
    by (simp add: list_all_length)
  then show ?thesis
    using assms(1,2) c by (simp add: AnalyzeRepositories_def Let_def)
qed

lemma AnalyzeRepositories_Some_Inr:
  assumes "AnalyzeRepositories client schedule repos = Some (Inr results)"
  shows "repos \<noteq> [] \<and> (\<exists>owner repo0 orgCtx.
           parseRepository (repos ! 0) = Inr (owner, repo0)
           \<and> loadOrganizationContext client owner = Inr orgCtx
           \<and> list_all Finished (Tasks (foldl stepTask (startBatch orgCtx repos) schedule))
           \<and> results = map (readResult client orgCtx repos
                               (foldl stepTask (startBatch orgCtx repos) schedule))
                          [0..<length repos])"
  using assms
  by (auto simp: AnalyzeRepositories_def Let_def split: if_splits sum.splits prod.splits)

lemma AnalyzeRepositories_first_wellformed:
  assumes "repos \<noteq> []" and "\<not> isl (parseRepository (repos ! 0))"
    and "AnalyzeRepositories client schedule repos = Some outcome"
  shows "\<exists>results. outcome = Inr results"
  using assms
  by (auto simp: AnalyzeRepositories_def loadOrganizationContext_def Let_def
           split: if_splits sum.splits prod.splits)

lemma AnalyzeRepositories_no_results:
  assumes "repos = [] \<or> isl (parseRepository (repos ! 0))"
  shows "\<exists>err. AnalyzeRepositories client schedule repos = Some (Inl err)"
  using assms
  by (auto simp: AnalyzeRepositories_def split: sum.splits)

lemma readResult_Finished:
  "Finished (Tasks state ! index)
     \<Longrightarrow> readResult client orgCtx repos state index
         = \<lparr>BatchRepository = repos ! index,
            Result = fst (analyzeRepositoryWithContext client orgCtx (repos ! index)
                       (readSlice (Backing state) (TaskPolicies (Tasks state ! index)))),
            Error = snd (analyzeRepositoryWithContext client orgCtx (repos ! index)
                      (readSlice (Backing state) (TaskPolicies (Tasks state ! index))))\<rparr>"
  by (simp add: readResult_def Let_def split: prod.splits)

lemma analyzeRepositoryWithContext_malformed:
  "parseRepository repoSpec = Inl err
     \<Longrightarrow> analyzeRepositoryWithContext client orgCtx repoSpec policies = (None, Some err)"
  by (simp add: analyzeRepositoryWithContext_def)

lemma analyzeRepositoryWithContext_wellformed:
  "\<not> isl (parseRepository repoSpec)
     \<Longrightarrow> snd (analyzeRepositoryWithContext client orgCtx repoSpec policies) = None
       \<and> fst (analyzeRepositoryWithContext client orgCtx repoSpec policies) \<noteq> None"
  by (cases "parseRepository repoSpec")
     (auto simp: analyzeRepositoryWithContext_def Let_def)

text \<open>What is true of every element of the results that the batch returns.\<close>

lemma AnalyzeRepositories_slots:
  assumes "AnalyzeRepositories client schedule repos = Some (Inr results)"
  shows "length results = length repos"
    and "i < length repos \<Longrightarrow> BatchRepository (results ! i) = repos ! i"
    and "i < length repos \<Longrightarrow> parseRepository (repos ! i) = Inl err
           \<Longrightarrow> results ! i = \<lparr>BatchRepository = repos ! i, Result = None, Error = Some err\<rparr>"
    and "i < length repos \<Longrightarrow> \<not> isl (parseRepository (repos ! i))
           \<Longrightarrow> Error (results ! i) = None \<and> Result (results ! i) \<noteq> None"
proof -
  obtain owner repo0 orgCtx where
    f: "list_all Finished (Tasks (foldl stepTask (startBatch orgCtx repos) schedule))"
    and r: "results = map (readResult client orgCtx repos
                             (foldl stepTask (startBatch orgCtx repos) schedule))
                        [0..<length repos]"
    using AnalyzeRepositories_Some_Inr [OF assms] by blast
  show "length results = length repos"
    by (simp add: r)
  have fi: "Finished (Tasks (foldl stepTask (startBatch orgCtx repos) schedule) ! i)"
    if "i < length repos" for i
    using f that by (simp add: list_all_length)
  show "i < length repos \<Longrightarrow> BatchRepository (results ! i) = repos ! i"
    using fi by (simp add: r readResult_Finished)
  show "i < length repos \<Longrightarrow> parseRepository (repos ! i) = Inl err
           \<Longrightarrow> results ! i = \<lparr>BatchRepository = repos ! i, Result = None, Error = Some err\<rparr>"
    using fi by (simp add: r readResult_Finished analyzeRepositoryWithContext_malformed)
  show "i < length repos \<Longrightarrow> \<not> isl (parseRepository (repos ! i))
           \<Longrightarrow> Error (results ! i) = None \<and> Result (results ! i) \<noteq> None"
    using fi analyzeRepositoryWithContext_wellformed [of "repos ! i" client orgCtx]
    by (simp add: r readResult_Finished)
qed

text \<open>
  C3. When \<open>AnalyzeRepositories\<close> returns results for a non-empty list, there are as many
  results as repositories and the result at each index names the repository at that
  index, whatever the order of the steps of the goroutines was: the results under any
  two orders name the same repositories at the same indices.
\<close>

theorem AnalyzeRepositories_input_order:
  assumes "repos \<noteq> []"
    and "AnalyzeRepositories client schedule repos = Some (Inr results)"
  shows "length results = length repos
    \<and> (\<forall>i < length repos. BatchRepository (results ! i) = repos ! i)
    \<and> (\<forall>schedule' results'.
          AnalyzeRepositories client schedule' repos = Some (Inr results')
          \<longrightarrow> length results' = length results
              \<and> map BatchRepository results' = map BatchRepository results)"
proof -
  have m: "map BatchRepository rs = repos"
    if "AnalyzeRepositories client s repos = Some (Inr rs)" for s rs
    using AnalyzeRepositories_slots(1,2) [OF that]
    by (intro nth_equalityI) simp_all
  show ?thesis
    using AnalyzeRepositories_slots(1,2) [OF assms(2)] m [OF assms(2)] m
    by (metis length_map)
qed

section \<open>A batch without one of its repositories\<close>

lemma length_removeAt:
  "k < length xs \<Longrightarrow> length (removeAt k xs) = length xs - 1"
  by (simp add: removeAt_def)

lemma nth_removeAt:
  "k < length xs \<Longrightarrow> i < length xs - 1
     \<Longrightarrow> removeAt k xs ! i = (if i < k then xs ! i else xs ! Suc i)"
  by (simp add: removeAt_def nth_append min_def)

lemma removeAt_update_self: "removeAt k (xs[k := v]) = removeAt k xs"
  by (simp add: removeAt_def)

lemma removeAt_update_other:
  assumes "k < length xs" and "j \<noteq> k"
  shows "removeAt k (xs[j := v]) = (removeAt k xs)[(if k < j then j - 1 else j) := v]"
proof (cases "j < k")
  case True
  then show ?thesis
    using assms by (simp add: removeAt_def list_update_append take_update_swap)
next
  case False
  then have "k < j" using assms by simp
  then show ?thesis
    using assms
    by (auto simp: removeAt_def list_update_append drop_update_swap)
qed

lemma map_removeAt: "map f (removeAt k xs) = removeAt k (map f xs)"
  by (simp add: removeAt_def take_map drop_map)

lemma set_removeAt: "set (removeAt k xs) \<subseteq> set xs"
  using set_take_subset [of k xs] set_drop_subset [of "Suc k" xs]
  by (auto simp: removeAt_def)

lemma stepTask_withoutTaskState_other:
  assumes "k < length (Tasks state)" and "j \<noteq> k"
  shows "stepTask (withoutTaskState k state) (if k < j then j - 1 else j)
           = withoutTaskState k (stepTask state j)"
proof (cases "j < length (Tasks state)")
  case False
  then have "\<not> (if k < j then j - 1 else j) < length (removeAt k (Tasks state))"
    using assms by (auto simp: length_removeAt)
  then show ?thesis
    using False by (simp add: stepTask_def withoutTaskState_def)
next
  case True
  then have i: "(if k < j then j - 1 else j) < length (Tasks state) - 1"
    using assms by auto
  have n: "removeAt k (Tasks state) ! (if k < j then j - 1 else j) = Tasks state ! j"
    using nth_removeAt [OF assms(1) i] assms(2) by auto
  have l: "(if k < j then j - 1 else j) < length (removeAt k (Tasks state))"
    using i assms(1) by (simp add: length_removeAt)
  show ?thesis
    using True l n removeAt_update_other [OF assms]
    by (simp add: stepTask_def withoutTaskState_def Let_def split: list.splits prod.splits)
qed

lemma stepTask_withoutTaskState_self:
  assumes "k < length (Tasks state)" and "Pending (Tasks state ! k) = []"
  shows "withoutTaskState k (stepTask state k) = withoutTaskState k state"
  using assms
  by (simp add: stepTask_def withoutTaskState_def Let_def removeAt_update_self)

lemma stepTask_Pending_empty:
  assumes "k < length (Tasks state)" and "Pending (Tasks state ! k) = []"
  shows "Pending (Tasks (stepTask state j) ! k) = []"
proof (cases "j = k")
  case True
  then show ?thesis
    using assms by (simp add: stepTask_def Let_def)
next
  case False
  then show ?thesis
    using assms by (simp add: stepTask_other)
qed

lemma foldl_stepTask_withoutTaskState:
  "k < length (Tasks state) \<Longrightarrow> Pending (Tasks state ! k) = []
     \<Longrightarrow> foldl stepTask (withoutTaskState k state) (withoutTask k schedule)
         = withoutTaskState k (foldl stepTask state schedule)"
proof (induction schedule arbitrary: state)
  case Nil
  then show ?case by (simp add: withoutTask_def)
next
  case (Cons j schedule)
  have l: "k < length (Tasks (stepTask state j))"
    using Cons.prems(1) by simp
  have p: "Pending (Tasks (stepTask state j) ! k) = []"
    using Cons.prems by (rule stepTask_Pending_empty)
  note ih = Cons.IH [OF l p]
  show ?case
  proof (cases "j = k")
    case True
    have "withoutTask k (j # schedule) = withoutTask k schedule"
      using True by (simp add: withoutTask_def)
    then show ?thesis
      using ih True stepTask_withoutTaskState_self [OF Cons.prems] by simp
  next
    case False
    have "withoutTask k (j # schedule)
            = (if k < j then j - 1 else j) # withoutTask k schedule"
      using False by (simp add: withoutTask_def)
    then show ?thesis
      using ih stepTask_withoutTaskState_other [OF Cons.prems(1) False] by simp
  qed
qed

lemma startBatch_removeAt:
  "startBatch orgCtx (removeAt k repos) = withoutTaskState k (startBatch orgCtx repos)"
  by (simp add: startBatch_def withoutTaskState_def map_removeAt)

lemma Pending_startTask_malformed:
  "isl (parseRepository repoSpec) \<Longrightarrow> Pending (startTask orgCtx repoSpec) = []"
  by (cases "parseRepository repoSpec") (simp_all add: startTask_def)

lemma readResult_withoutTaskState:
  assumes "k < length repos" and "length (Tasks state) = length repos"
    and "i < length repos - 1"
  shows "readResult client orgCtx (removeAt k repos) (withoutTaskState k state) i
           = readResult client orgCtx repos state (if i < k then i else Suc i)"
proof -
  have "removeAt k repos ! i = repos ! (if i < k then i else Suc i)"
    using nth_removeAt [OF assms(1,3)] by simp
  moreover have "removeAt k (Tasks state) ! i = Tasks state ! (if i < k then i else Suc i)"
    using nth_removeAt [of k "Tasks state" i] assms by simp
  ultimately show ?thesis
    by (cases "i < k") (simp_all add: readResult_def withoutTaskState_def Let_def)
qed

text \<open>
  The batch without a repository whose identifier does not parse, under the schedule
  without its steps, returns the other results as they were.
\<close>

lemma AnalyzeRepositories_without_malformed:
  assumes "0 < k" and "k < length repos" and "isl (parseRepository (repos ! k))"
    and "AnalyzeRepositories client schedule repos = Some (Inr results)"
  shows "AnalyzeRepositories client (withoutTask k schedule) (removeAt k repos)
           = Some (Inr (removeAt k results))"
proof -
  obtain owner repo0 orgCtx where
    p: "parseRepository (repos ! 0) = Inr (owner, repo0)"
    and c: "loadOrganizationContext client owner = Inr orgCtx"
    and f: "list_all Finished (Tasks (foldl stepTask (startBatch orgCtx repos) schedule))"
    and r: "results = map (readResult client orgCtx repos
                             (foldl stepTask (startBatch orgCtx repos) schedule))
                        [0..<length repos]"
    using AnalyzeRepositories_Some_Inr [OF assms(4)] by blast
  let ?final = "foldl stepTask (startBatch orgCtx repos) schedule"
  have k: "k < length (Tasks (startBatch orgCtx repos))"
    using assms(2) by simp
  have e: "Pending (Tasks (startBatch orgCtx repos) ! k) = []"
    using assms(2,3) by (simp add: startBatch_def Pending_startTask_malformed)
  have s: "foldl stepTask (startBatch orgCtx (removeAt k repos)) (withoutTask k schedule)
             = withoutTaskState k ?final"
    unfolding startBatch_removeAt by (rule foldl_stepTask_withoutTaskState [OF k e])
  have n: "length (removeAt k repos) = length repos - 1"
    using assms(2) by (rule length_removeAt)
  have z: "length (removeAt k repos) \<noteq> 0"
    using n assms(1,2) by simp
  have h: "removeAt k repos ! 0 = repos ! 0"
    using nth_removeAt [of k repos 0] assms(1,2) by simp
  have fa: "list_all Finished (Tasks (withoutTaskState k ?final))"
    using f set_removeAt [of k "Tasks ?final"]
    by (auto simp: list_all_iff withoutTaskState_def)
  have "map (readResult client orgCtx (removeAt k repos) (withoutTaskState k ?final))
          [0..<length repos - 1]
        = removeAt k results"
  proof (rule nth_equalityI)
    show "length (map (readResult client orgCtx (removeAt k repos) (withoutTaskState k ?final))
             [0..<length repos - 1]) = length (removeAt k results)"
      using assms(2) by (simp add: r length_removeAt)
  next
    fix i
    assume "i < length (map (readResult client orgCtx (removeAt k repos)
                          (withoutTaskState k ?final)) [0..<length repos - 1])"
    then have i: "i < length repos - 1" by simp
    have "removeAt k results ! i = results ! (if i < k then i else Suc i)"
      using nth_removeAt [of k results i] assms(2) i by (simp add: r)
    also have "\<dots> = readResult client orgCtx repos ?final (if i < k then i else Suc i)"
      using i by (simp add: r)
    finally show "map (readResult client orgCtx (removeAt k repos) (withoutTaskState k ?final))
                    [0..<length repos - 1] ! i = removeAt k results ! i"
      using i readResult_withoutTaskState [OF assms(2) _ i, of ?final client orgCtx]
      by simp
  qed
  then show ?thesis
    using z h p c s fa n by (simp add: AnalyzeRepositories_def Let_def)
qed

section \<open>The results of the batch\<close>

text \<open>
  The repository policies of a result can be those of another repository. The context
  holds three repository policies in an array with room for a fourth; the goroutines of
  \<open>repoA\<close> and \<open>repoB\<close> each append the ruleset that targets their repository, both into
  the fourth element, and both results show the one that was written last.
\<close>

lemma AnalyzeRepositories_shared_backing_array:
  "map_option (map_sum id (map policyNames))
     (AnalyzeRepositories exampleSharingClient [0, 1, 0, 1] [''octo/repoA'', ''octo/repoB''])
     = Some (Inr [[''rs-A'', ''rs-B'', ''rs-C'', ''rs-B''],
                  [''rs-A'', ''rs-B'', ''rs-C'', ''rs-B'']])
   \<and> map_option (map_sum id (map policyNames))
     (AnalyzeRepositories exampleSharingClient [1, 0, 0, 1] [''octo/repoA'', ''octo/repoB''])
     = Some (Inr [[''rs-A'', ''rs-B'', ''rs-C'', ''rs-A''],
                  [''rs-A'', ''rs-B'', ''rs-C'', ''rs-A'']])"
  by code_simp

theorem AnalyzeRepositories_input_order_witness:
  "length (projr (the (AnalyzeRepositories exampleClient [2, 0, 1, 1, 0, 2] exampleRepos))) = 3
   \<and> map BatchRepository
       (projr (the (AnalyzeRepositories exampleClient [2, 0, 1, 1, 0, 2] exampleRepos)))
     = [''octo/web-legacy'', ''not-a-repo'', ''octo/api'']
   \<and> map BatchRepository
       (projr (the (AnalyzeRepositories exampleClient [0, 0, 1, 2, 2] exampleRepos)))
     = map BatchRepository
         (projr (the (AnalyzeRepositories exampleClient [2, 0, 1, 1, 0, 2] exampleRepos)))"
proof -
  have n: "exampleRepos \<noteq> []"
    by (simp add: exampleRepos_def)
  have l: "length exampleRepos = 3"
    by (simp add: exampleRepos_def)
  have r: "AnalyzeRepositories exampleClient [2, 0, 1, 1, 0, 2] exampleRepos
      = Some (Inr (projr (the (AnalyzeRepositories exampleClient [2, 0, 1, 1, 0, 2]
                                 exampleRepos))))"
    by code_simp
  have r': "AnalyzeRepositories exampleClient [0, 0, 1, 2, 2] exampleRepos
      = Some (Inr (projr (the (AnalyzeRepositories exampleClient [0, 0, 1, 2, 2]
                                 exampleRepos))))"
    by code_simp
  note w = AnalyzeRepositories_input_order [OF n r]
  have "map BatchRepository
       (projr (the (AnalyzeRepositories exampleClient [2, 0, 1, 1, 0, 2] exampleRepos)))
     = exampleRepos"
    using w by (intro nth_equalityI) simp_all
  moreover have "map BatchRepository
       (projr (the (AnalyzeRepositories exampleClient [0, 0, 1, 2, 2] exampleRepos)))
     = map BatchRepository
         (projr (the (AnalyzeRepositories exampleClient [2, 0, 1, 1, 0, 2] exampleRepos)))"
    using w r' by blast
  ultimately show ?thesis
    using w l by (simp add: exampleRepos_def)
qed

text \<open>
  C2, as amended. For a list that is not empty and whose first identifier splits into
  owner and name, \<open>AnalyzeRepositories\<close> returns under every schedule that gives each
  goroutine more steps than there are organization policies, and whenever it returns it
  returns results, one for each repository, with the identifier of the repository at the
  same index. A repository whose identifier does not split has, as its own result, its
  identifier, the error and no dependencies; a repository whose identifier splits has
  dependencies and no error; and the results of the others are the results of the batch
  without the repository that does not split, under the schedule without its steps. When
  the list is empty or its first identifier does not split, the call returns an error and
  no results.
\<close>

theorem AnalyzeRepositories_malformed_identifier:
  "(repos = [] \<or> isl (parseRepository (repos ! 0))
      \<longrightarrow> (\<exists>err. AnalyzeRepositories client schedule repos = Some (Inl err)))
   \<and> (repos \<noteq> [] \<and> parseRepository (repos ! 0) = Inr (owner, repo0)
      \<longrightarrow> ((\<forall>i < length repos.
               length (OrganizationPolicies (OrgGovernanceOf client owner))
                 < count_list schedule i)
             \<longrightarrow> AnalyzeRepositories client schedule repos \<noteq> None)
          \<and> (\<forall>outcome. AnalyzeRepositories client schedule repos = Some outcome
                \<longrightarrow> (\<exists>results. outcome = Inr results
                       \<and> length results = length repos
                       \<and> (\<forall>i < length repos.
                             BatchRepository (results ! i) = repos ! i
                             \<and> (\<forall>err. parseRepository (repos ! i) = Inl err
                                   \<longrightarrow> results ! i
                                       = \<lparr>BatchRepository = repos ! i, Result = None,
                                          Error = Some err\<rparr>)
                             \<and> (\<not> isl (parseRepository (repos ! i))
                                   \<longrightarrow> Error (results ! i) = None
                                       \<and> Result (results ! i) \<noteq> None)
                             \<and> (isl (parseRepository (repos ! i))
                                   \<longrightarrow> AnalyzeRepositories client (withoutTask i schedule)
                                         (removeAt i repos)
                                       = Some (Inr (removeAt i results)))))))"
proof (intro conjI impI allI)
  assume "repos = [] \<or> isl (parseRepository (repos ! 0))"
  then show "\<exists>err. AnalyzeRepositories client schedule repos = Some (Inl err)"
    by (rule AnalyzeRepositories_no_results)
next
  assume a: "repos \<noteq> [] \<and> parseRepository (repos ! 0) = Inr (owner, repo0)"
  assume "\<forall>i < length repos.
            length (OrganizationPolicies (OrgGovernanceOf client owner)) < count_list schedule i"
  then show "AnalyzeRepositories client schedule repos \<noteq> None"
    using a AnalyzeRepositories_returns [of repos owner repo0 client schedule] by blast
next
  fix outcome
  assume a: "repos \<noteq> [] \<and> parseRepository (repos ! 0) = Inr (owner, repo0)"
  assume o: "AnalyzeRepositories client schedule repos = Some outcome"
  have first: "\<not> isl (parseRepository (repos ! 0))"
    using a by simp
  obtain results where res: "outcome = Inr results"
    using AnalyzeRepositories_first_wellformed [OF _ first o] a by blast
  have r: "AnalyzeRepositories client schedule repos = Some (Inr results)"
    using o res by simp
  note s = AnalyzeRepositories_slots [OF r]
  have "AnalyzeRepositories client (withoutTask i schedule) (removeAt i repos)
          = Some (Inr (removeAt i results))"
    if i: "i < length repos" and m: "isl (parseRepository (repos ! i))" for i
  proof -
    have "i \<noteq> 0" using m first by (cases "i = 0") simp_all
    then have "0 < i" by simp
    then show ?thesis
      using i m r by (rule AnalyzeRepositories_without_malformed)
  qed
  then have "\<forall>i < length repos.
      BatchRepository (results ! i) = repos ! i
      \<and> (\<forall>err. parseRepository (repos ! i) = Inl err
            \<longrightarrow> results ! i
                = \<lparr>BatchRepository = repos ! i, Result = None, Error = Some err\<rparr>)
      \<and> (\<not> isl (parseRepository (repos ! i))
            \<longrightarrow> Error (results ! i) = None \<and> Result (results ! i) \<noteq> None)
      \<and> (isl (parseRepository (repos ! i))
            \<longrightarrow> AnalyzeRepositories client (withoutTask i schedule) (removeAt i repos)
                = Some (Inr (removeAt i results)))"
    using s(2,3,4) by blast
  then show "\<exists>results. outcome = Inr results
      \<and> length results = length repos
      \<and> (\<forall>i < length repos.
            BatchRepository (results ! i) = repos ! i
            \<and> (\<forall>err. parseRepository (repos ! i) = Inl err
                  \<longrightarrow> results ! i
                      = \<lparr>BatchRepository = repos ! i, Result = None, Error = Some err\<rparr>)
            \<and> (\<not> isl (parseRepository (repos ! i))
                  \<longrightarrow> Error (results ! i) = None \<and> Result (results ! i) \<noteq> None)
            \<and> (isl (parseRepository (repos ! i))
                  \<longrightarrow> AnalyzeRepositories client (withoutTask i schedule) (removeAt i repos)
                      = Some (Inr (removeAt i results))))"
    using res s(1) by blast
qed

theorem AnalyzeRepositories_malformed_identifier_witness:
  "AnalyzeRepositories exampleClient [2, 0, 1, 1, 0, 2] exampleRepos \<noteq> None
   \<and> length (projr (the (AnalyzeRepositories exampleClient [2, 0, 1, 1, 0, 2] exampleRepos))) = 3
   \<and> projr (the (AnalyzeRepositories exampleClient [2, 0, 1, 1, 0, 2] exampleRepos)) ! 1
     = \<lparr>BatchRepository = ''not-a-repo'', Result = None,
        Error = Some (projl (parseRepository ''not-a-repo''))\<rparr>
   \<and> Error (projr (the (AnalyzeRepositories exampleClient [2, 0, 1, 1, 0, 2] exampleRepos)) ! 0)
     = None
   \<and> Result (projr (the (AnalyzeRepositories exampleClient [2, 0, 1, 1, 0, 2] exampleRepos)) ! 2)
     \<noteq> None
   \<and> AnalyzeRepositories exampleClient [1, 0, 0, 1] [''octo/web-legacy'', ''octo/api'']
     = Some (Inr (removeAt 1
         (projr (the (AnalyzeRepositories exampleClient [2, 0, 1, 1, 0, 2] exampleRepos)))))
   \<and> isl (the (AnalyzeRepositories exampleClient [] []))"
proof -
  let ?out = "AnalyzeRepositories exampleClient [2, 0, 1, 1, 0, 2] exampleRepos"
  have l: "length exampleRepos = 3"
    by (simp add: exampleRepos_def)
  have p: "exampleRepos \<noteq> [] \<and> parseRepository (exampleRepos ! 0) = Inr (''octo'', ''web-legacy'')"
    by code_simp
  have c: "\<forall>i < length exampleRepos.
             length (OrganizationPolicies (OrgGovernanceOf exampleClient ''octo''))
               < count_list [2, 0, 1, 1, 0, 2] i"
    unfolding l by code_simp
  have p1: "parseRepository (exampleRepos ! 1) = Inl (projl (parseRepository ''not-a-repo''))"
    by code_simp
  have m1: "isl (parseRepository (exampleRepos ! 1))"
    by code_simp
  have p0: "\<not> isl (parseRepository (exampleRepos ! 0))"
    by code_simp
  have p2: "\<not> isl (parseRepository (exampleRepos ! 2))"
    by code_simp
  have e: "withoutTask 1 [2, 0, 1, 1, 0, 2] = [1, 0, 0, 1]
           \<and> removeAt 1 exampleRepos = [''octo/web-legacy'', ''octo/api'']
           \<and> exampleRepos ! 1 = ''not-a-repo''"
    by code_simp
  have z: "([] :: string list) = [] \<or> isl (parseRepository (([] :: string list) ! 0))"
    by simp
  note w = AnalyzeRepositories_malformed_identifier [where client = exampleClient
      and schedule = "[2, 0, 1, 1, 0, 2]" and repos = exampleRepos
      and owner = "''octo''" and ?repo0.0 = "''web-legacy''"]
  note w0 = AnalyzeRepositories_malformed_identifier [where client = exampleClient
      and schedule = "[]" and repos = "[]"]
  have ret: "?out \<noteq> None"
    using w p c by blast
  then obtain outcome where o: "?out = Some outcome"
    by blast
  from w p o obtain results where res: "outcome = Inr results"
    and n: "length results = length exampleRepos"
    and a: "\<forall>i < length exampleRepos.
              BatchRepository (results ! i) = exampleRepos ! i
              \<and> (\<forall>err. parseRepository (exampleRepos ! i) = Inl err
                    \<longrightarrow> results ! i
                        = \<lparr>BatchRepository = exampleRepos ! i, Result = None,
                           Error = Some err\<rparr>)
              \<and> (\<not> isl (parseRepository (exampleRepos ! i))
                    \<longrightarrow> Error (results ! i) = None \<and> Result (results ! i) \<noteq> None)
              \<and> (isl (parseRepository (exampleRepos ! i))
                    \<longrightarrow> AnalyzeRepositories exampleClient (withoutTask i [2, 0, 1, 1, 0, 2])
                          (removeAt i exampleRepos)
                        = Some (Inr (removeAt i results)))"
    by blast
  have pr: "projr (the ?out) = results"
    using o res by simp
  have i0: "0 < length exampleRepos" and i1: "1 < length exampleRepos"
    and i2: "2 < length exampleRepos"
    by (simp_all add: l)
  have s1: "results ! 1 = \<lparr>BatchRepository = ''not-a-repo'', Result = None,
                            Error = Some (projl (parseRepository ''not-a-repo''))\<rparr>"
    using a [rule_format, OF i1] p1 e by simp
  have s0: "Error (results ! 0) = None"
    using a [rule_format, OF i0] p0 by blast
  have s2: "Result (results ! 2) \<noteq> None"
    using a [rule_format, OF i2] p2 by blast
  have d: "AnalyzeRepositories exampleClient [1, 0, 0, 1] [''octo/web-legacy'', ''octo/api'']
             = Some (Inr (removeAt 1 results))"
    using a [rule_format, OF i1] m1 e by simp
  have "\<exists>err. AnalyzeRepositories exampleClient [] [] = Some (Inl err)"
    using w0 z by blast
  then have s3: "isl (the (AnalyzeRepositories exampleClient [] []))"
    by auto
  show ?thesis
    unfolding pr using ret n l s1 s0 s2 d s3 by simp
qed

text \<open>
  C2, as stated, fails when the malformed identifier is the first of the list: the call
  returns an error and no result for any repository.
\<close>

theorem AnalyzeRepositories_first_malformed_counterexample:
  "isl (parseRepository ''not-a-repo'')
   \<and> \<not> isl (parseRepository ''octo/api'')
   \<and> map_option isl (AnalyzeRepositories exampleClient [0, 1, 1] [''not-a-repo'', ''octo/api''])
     = Some True"
  by code_simp

section \<open>The member privilege heuristic\<close>

lemma isMemberPrivilegePolicyOrgLevel_policy_name:
  "strings_Contains (strings_ToLower (Name policy)) ''policy''
     \<Longrightarrow> Name policy \<noteq> ''Member Management Policy''
     \<Longrightarrow> \<not> isMemberPrivilegePolicyOrgLevel policy"
  by (simp add: isMemberPrivilegePolicyOrgLevel_def)

text \<open>
  C1. The claim is that a policy whose name contains \<open>policy\<close> and is not
  \<open>Member Management Policy\<close> is validated as a repository policy, whatever keywords it
  holds. The function \<open>isMemberPrivilegePolicy\<close> that \<open>validateGovernance\<close> calls lacks the
  test of the name for \<open>policy\<close> with which its three copies in the packages dependencies
  and output begin. For the policy of a ruleset named \<open>Repository Creation Policy\<close> it
  answers true where \<open>isMemberPrivilegePolicyOrgLevel\<close> answers false: the policy is
  validated as a member privilege and found ready, where its validation as a repository
  policy asks for setup. The same happens to the policy \<open>Security Policy\<close> that
  \<open>checkSecurityAndMemberPoliciesOrgLevel\<close> builds.
\<close>

theorem validateGovernance_ignores_policy_name:
  "strings_Contains (strings_ToLower (Name examplePolicy)) ''policy''
   \<and> Name examplePolicy \<noteq> ''Member Management Policy''
   \<and> isMemberPrivilegePolicy examplePolicy
   \<and> \<not> isMemberPrivilegePolicyOrgLevel examplePolicy
   \<and> validateGovernance (emptyGovernance\<lparr>OrganizationPolicies := [examplePolicy]\<rparr>)
        exampleCapabilities
      = [validateMemberPrivilegePolicy examplePolicy (CapMemberPrivileges exampleCapabilities)]
   \<and> validateGovernance (emptyGovernance\<lparr>OrganizationPolicies := [examplePolicy]\<rparr>)
        exampleCapabilities
      = [\<lparr>Item = ''Repository Creation Policy (status: active)'', Status = ValidationReady,
          Message = ''Member privilege settings meet policy requirements'',
          Recommendation = []\<rparr>]
   \<and> Status (validateRepositoryPolicy examplePolicy (CapRepositoryPolicies exampleCapabilities))
      = ValidationSetupNeeded
   \<and> OrganizationPolicies exampleSettingsGovernance
     = [\<lparr>Name = ''Member Management Policy'', PolicyStatus = ''active'',
         Restrictions = [''Private repository forking restricted'',
           ''Repository deletion restricted'', ''Issue deletion restricted'']\<rparr>,
        exampleSecurityPolicy]
   \<and> strings_Contains (strings_ToLower (Name exampleSecurityPolicy)) ''policy''
   \<and> Name exampleSecurityPolicy \<noteq> ''Member Management Policy''
   \<and> isMemberPrivilegePolicy exampleSecurityPolicy
   \<and> \<not> isMemberPrivilegePolicyOrgLevel exampleSecurityPolicy
   \<and> validateGovernance exampleSettingsGovernance exampleCapabilities ! 1
     = validateMemberPrivilegePolicy exampleSecurityPolicy
         (CapMemberPrivileges exampleCapabilities)
   \<and> validateGovernance exampleSettingsGovernance exampleCapabilities ! 1
     \<noteq> validateRepositoryPolicy exampleSecurityPolicy
         (CapRepositoryPolicies exampleCapabilities)"
  by code_simp

end
